theory Spec2Isabelle
  imports Complex_Main "HOL-Library.Sublist" "HOL-Library.AList"
begin

section \<open>Python values used by the server\<close>

text \<open>
  Decoded JSON documents, request bodies and tool payloads are Python values built from
  \<open>None\<close>, booleans, integers, strings, lists and dictionaries. A dictionary is an
  association list in insertion order with distinct keys; \<open>map_of\<close> is the lookup and
  \<open>AList.update\<close> the item assignment (an existing key keeps its place, a new key goes
  to the end). Strings are lists of 8-bit characters, read as the code points 0 to 255.
  Floating-point numbers are outside the model.
\<close>

datatype json =
    JNull
  | JBool bool
  | JInt int
  | JString string
  | JArray "json list"
  | JObject "(string \<times> json) list"

subsection \<open>Text of integers and strings\<close>

definition digit_char :: "nat \<Rightarrow> char" where
  "digit_char d = char_of (48 + d)"

fun str_nat :: "nat \<Rightarrow> string" where
  "str_nat n = (if n < 10 then [digit_char n] else str_nat (n div 10) @ [digit_char (n mod 10)])"

declare str_nat.simps [simp del]

definition str_int :: "int \<Rightarrow> string" where
  "str_int i = (if i < 0 then CHR ''-'' # str_nat (nat (- i)) else str_nat (nat i))"

definition hex_char :: "nat \<Rightarrow> char" where
  "hex_char d = (if d < 10 then char_of (48 + d) else char_of (87 + d))"

text \<open>\<open>str.isspace\<close> on the code points below 256; \<open>str.strip()\<close> and \<open>int()\<close> use it.\<close>

definition py_isspace :: "char \<Rightarrow> bool" where
  "py_isspace c = (let n = (of_char c :: nat) in
     (9 \<le> n \<and> n \<le> 13) \<or> (28 \<le> n \<and> n \<le> 32) \<or> n = 133 \<or> n = 160)"

definition strip :: "string \<Rightarrow> string" where
  "strip s = rev (dropWhile py_isspace (rev (dropWhile py_isspace s)))"

definition lstrip_chars :: "char \<Rightarrow> string \<Rightarrow> string" where
  "lstrip_chars c s = dropWhile (\<lambda>x. x = c) s"

definition rstrip_chars :: "char \<Rightarrow> string \<Rightarrow> string" where
  "rstrip_chars c s = rev (dropWhile (\<lambda>x. x = c) (rev s))"

definition is_digit :: "char \<Rightarrow> bool" where
  "is_digit c = (48 \<le> (of_char c :: nat) \<and> (of_char c :: nat) \<le> 57)"

definition digit_val :: "char \<Rightarrow> nat" where
  "digit_val c = of_char c - 48"

text \<open>\<open>repr\<close> of a string and of a value, \<open>str\<close> of a value (what an f-string inserts).\<close>

definition repr_char :: "char \<Rightarrow> char \<Rightarrow> string" where
  "repr_char q c =
     (let n = (of_char c :: nat) in
      if c = q \<or> n = 92 then [CHR 0x5C, c]
      else if n = 9 then [CHR 0x5C, CHR ''t'']
      else if n = 10 then [CHR 0x5C, CHR ''n'']
      else if n = 13 then [CHR 0x5C, CHR ''r'']
      else if n < 32 \<or> n = 127 \<or> (128 \<le> n \<and> n \<le> 160) \<or> n = 173
        then [CHR 0x5C, CHR ''x'', hex_char (n div 16), hex_char (n mod 16)]
      else [c])"

definition py_repr_str :: "string \<Rightarrow> string" where
  "py_repr_str s =
     (let q = (if CHR 0x27 \<in> set s \<and> CHR 0x22 \<notin> set s then CHR 0x22 else CHR 0x27)
      in q # concat (map (repr_char q) s) @ [q])"

text \<open>
  \<open>int(s)\<close> on a string, base 10. Leading whitespace is skipped (tab to carriage return,
  space, and the two whitespace code points above 127), then one sign; then comes a run
  of decimal digits with single underscores between them, of at most 4300 digits; only
  whitespace may follow. \<open>Inl\<close> holds the message of the \<open>ValueError\<close> it raises
  otherwise; the message for a malformed literal shows at most 200 characters of its
  \<open>repr\<close>.
\<close>

definition int_isspace :: "char \<Rightarrow> bool" where
  "int_isspace c = (let n = (of_char c :: nat) in
     (9 \<le> n \<and> n \<le> 13) \<or> n = 32 \<or> n = 133 \<or> n = 160)"

fun scan_int_digits :: "bool \<Rightarrow> nat \<Rightarrow> nat \<Rightarrow> string \<Rightarrow> (nat \<times> nat \<times> string) option" where
  "scan_int_digits prev_underscore cnt acc [] =
     (if prev_underscore then None else Some (cnt, acc, []))"
| "scan_int_digits prev_underscore cnt acc (c # cs) =
     (if is_digit c then scan_int_digits False (Suc cnt) (10 * acc + digit_val c) cs
      else if c = CHR ''_'' then
        (if prev_underscore then None else scan_int_digits True cnt acc cs)
      else if prev_underscore then None
      else Some (cnt, acc, c # cs))"

definition invalid_literal :: "string \<Rightarrow> string" where
  "invalid_literal s = ''invalid literal for int() with base 10: '' @ take 200 (py_repr_str s)"

definition digit_limit_exceeded :: "nat \<Rightarrow> string" where
  "digit_limit_exceeded cnt =
     ''Exceeds the limit (4300 digits) for integer string conversion: value has '' @
     str_nat cnt @ '' digits; use sys.set_int_max_str_digits() to increase the limit''"

definition py_int :: "string \<Rightarrow> string + int" where
  "py_int s =
     (let t = dropWhile int_isspace s;
          neg = (t \<noteq> [] \<and> hd t = CHR ''-'');
          u = (if t \<noteq> [] \<and> (hd t = CHR ''-'' \<or> hd t = CHR ''+'') then tl t else t)
      in if u \<noteq> [] \<and> hd u = CHR ''_'' then Inl (invalid_literal s)
         else
           (case scan_int_digits False 0 0 u of
              None \<Rightarrow> Inl (invalid_literal s)
            | Some r \<Rightarrow>
                if fst r = 0 then Inl (invalid_literal s)
                else if fst r > 4300 then Inl (digit_limit_exceeded (fst r))
                else if dropWhile int_isspace (snd (snd r)) \<noteq> [] then Inl (invalid_literal s)
                else Inr (if neg then - int (fst (snd r)) else int (fst (snd r)))))"

fun py_repr :: "json \<Rightarrow> string"
  and py_repr_list :: "json list \<Rightarrow> string"
  and py_repr_items :: "(string \<times> json) list \<Rightarrow> string" where
  "py_repr JNull = ''None''"
| "py_repr (JBool b) = (if b then ''True'' else ''False'')"
| "py_repr (JInt i) = str_int i"
| "py_repr (JString s) = py_repr_str s"
| "py_repr (JArray xs) = ''['' @ py_repr_list xs @ '']''"
| "py_repr (JObject kvs) = ''{'' @ py_repr_items kvs @ ''}''"
| "py_repr_list [] = []"
| "py_repr_list (x # xs) = py_repr x @ (if xs = [] then [] else '', '' @ py_repr_list xs)"
| "py_repr_items [] = []"
| "py_repr_items (kv # kvs) =
     py_repr_str (fst kv) @ '': '' @ py_repr (snd kv)
       @ (if kvs = [] then [] else '', '' @ py_repr_items kvs)"

definition py_str :: "json \<Rightarrow> string" where
  "py_str v = (case v of JString s \<Rightarrow> s | _ \<Rightarrow> py_repr v)"

definition py_type_name :: "json \<Rightarrow> string" where
  "py_type_name v =
     (case v of JNull \<Rightarrow> ''NoneType'' | JBool _ \<Rightarrow> ''bool'' | JInt _ \<Rightarrow> ''int''
      | JString _ \<Rightarrow> ''str'' | JArray _ \<Rightarrow> ''list'' | JObject _ \<Rightarrow> ''dict'')"

text \<open>Truthiness, as \<open>if x:\<close> and \<open>x or y\<close> test it.\<close>

definition truthy_str :: "string option \<Rightarrow> bool" where
  "truthy_str s = (case s of None \<Rightarrow> False | Some t \<Rightarrow> t \<noteq> [])"

definition truthy_int :: "int option \<Rightarrow> bool" where
  "truthy_int i = (case i of None \<Rightarrow> False | Some n \<Rightarrow> n \<noteq> 0)"

definition py_truthy :: "json \<Rightarrow> bool" where
  "py_truthy v =
     (case v of JNull \<Rightarrow> False | JBool b \<Rightarrow> b | JInt i \<Rightarrow> i \<noteq> 0
      | JString s \<Rightarrow> s \<noteq> [] | JArray xs \<Rightarrow> xs \<noteq> [] | JObject kvs \<Rightarrow> kvs \<noteq> [])"

subsection \<open>\<open>json.dumps(obj, indent=2)\<close>\<close>

text \<open>
  The standard encoder with \<open>ensure_ascii\<close>: inside a string, the quote and the backslash
  are escaped, the control characters \<open>\b \f \n \r \t\<close> have short escapes, and every
  other character outside the range from space to tilde is written \<open>\u00xx\<close>. With an
  indent, the item separator is a comma, the key separator is a colon and a space, and
  every item of a non-empty list or dictionary is on a line of its own.
\<close>

definition json_escape_char :: "char \<Rightarrow> string" where
  "json_escape_char c =
     (let n = (of_char c :: nat) in
      if n = 34 then [CHR 0x5C, CHR 0x22]
      else if n = 92 then [CHR 0x5C, CHR 0x5C]
      else if n = 8 then [CHR 0x5C, CHR ''b'']
      else if n = 12 then [CHR 0x5C, CHR ''f'']
      else if n = 10 then [CHR 0x5C, CHR ''n'']
      else if n = 13 then [CHR 0x5C, CHR ''r'']
      else if n = 9 then [CHR 0x5C, CHR ''t'']
      else if n < 32 \<or> 126 < n
        then [CHR 0x5C, CHR ''u'', CHR ''0'', CHR ''0'', hex_char (n div 16), hex_char (n mod 16)]
      else [c])"

definition json_encode_str :: "string \<Rightarrow> string" where
  "json_encode_str s = CHR 0x22 # concat (map json_escape_char s) @ [CHR 0x22]"

definition newline_indent :: "nat \<Rightarrow> string" where
  "newline_indent level = CHR 0x0A # replicate (2 * level) CHR '' ''"

fun json_encode :: "nat \<Rightarrow> json \<Rightarrow> string"
  and json_encode_list :: "nat \<Rightarrow> json list \<Rightarrow> string"
  and json_encode_items :: "nat \<Rightarrow> (string \<times> json) list \<Rightarrow> string" where
  "json_encode level JNull = ''null''"
| "json_encode level (JBool b) = (if b then ''true'' else ''false'')"
| "json_encode level (JInt i) = str_int i"
| "json_encode level (JString s) = json_encode_str s"
| "json_encode level (JArray xs) =
     (if xs = [] then ''[]''
      else ''['' @ newline_indent (Suc level) @ json_encode_list (Suc level) xs
           @ newline_indent level @ '']'')"
| "json_encode level (JObject kvs) =
     (if kvs = [] then ''{}''
      else ''{'' @ newline_indent (Suc level) @ json_encode_items (Suc level) kvs
           @ newline_indent level @ ''}'')"
| "json_encode_list level [] = []"
| "json_encode_list level (x # xs) =
     json_encode level x
       @ (if xs = [] then [] else '','' @ newline_indent level @ json_encode_list level xs)"
| "json_encode_items level [] = []"
| "json_encode_items level (kv # kvs) =
     json_encode_str (fst kv) @ '': '' @ json_encode level (snd kv)
       @ (if kvs = [] then [] else '','' @ newline_indent level @ json_encode_items level kvs)"

definition json_dumps :: "json \<Rightarrow> string" where
  "json_dumps v = json_encode 0 v"

section \<open>errors.py: the error taxonomy and the translator\<close>

text \<open>
  An HTTP response as the client reads it: the status, the headers, what
  \<open>response.json()\<close> gives (the decoded body, or the type name and text of the exception
  it raises), and the text the HTTP library gives the \<open>HTTPStatusError\<close> that
  \<open>raise_for_status()\<close> raises for it.
\<close>

record response =
  status_code :: int
  headers :: "(string \<times> string) list"
  json_body :: "(string \<times> string) + json"
  error_text :: string

definition py_lower :: "string \<Rightarrow> string" where
  "py_lower s = map (\<lambda>c. if 65 \<le> (of_char c :: nat) \<and> (of_char c :: nat) \<le> 90
                          then char_of ((of_char c :: nat) + 32) else c) s"

text \<open>
  Header names match without regard to case; the values of a header that occurs more than
  once are joined with a comma and a space.
\<close>

fun join_values :: "string list \<Rightarrow> string" where
  "join_values [] = []"
| "join_values [v] = v"
| "join_values (v # w # ws) = v @ '', '' @ join_values (w # ws)"

definition headers_get :: "(string \<times> string) list \<Rightarrow> string \<Rightarrow> string option" where
  "headers_get hs name =
     (let vs = map snd (filter (\<lambda>kv. py_lower (fst kv) = py_lower name) hs)
      in if vs = [] then None else Some (join_values vs))"

text \<open>
  The exceptions the code tells apart. \<open>MethodAPIError\<close> and its five subclasses are one
  constructor with the class as a field, then the message, the status code and (for
  \<open>RateLimitError\<close>) \<open>retry_after\<close>. Every other exception is its type name and its
  \<open>str\<close>.
\<close>

datatype api_error_class =
    BaseError
  | AuthenticationError
  | RateLimitError
  | ValidationError
  | NotFoundError
  | PermissionError

datatype exn =
    HTTPStatusError response string
  | TimeoutException string
  | ConnectError string
  | MethodAPIError api_error_class string "int option" "int option"
  | OtherException string string

definition extract_error_message :: "response \<Rightarrow> string \<Rightarrow> string" where
  "extract_error_message resp str_e =
     (case json_body resp of
        Inl _ \<Rightarrow> str_e
      | Inr error_data \<Rightarrow>
          (case error_data of
             JObject kvs \<Rightarrow>
               (case map_of kvs ''error'' of
                  None \<Rightarrow> str_e
                | Some err \<Rightarrow>
                    (case err of
                       JObject kvs' \<Rightarrow>
                         (case map_of kvs' ''message'' of
                            None \<Rightarrow> str_e
                          | Some m \<Rightarrow> py_str m)
                     | _ \<Rightarrow> str_e))
           | _ \<Rightarrow> str_e))"

definition handle_api_error :: "exn \<Rightarrow> string" where
  "handle_api_error e =
     (case e of
        HTTPStatusError resp str_e \<Rightarrow>
          (let code = status_code resp;
               error_message = extract_error_message resp str_e
           in if code = 400 then
                ''Error: Validation failed - '' @ error_message @
                ''\<newline>Suggestion: Check that all required fields are provided and have valid values. '' @
                ''Review the API documentation for parameter requirements.''
              else if code = 401 then
                ''Error: Authentication failed. Your API key or access token is invalid or expired.'' @
                ''\<newline>Suggestion: Check that METHOD_API_KEY is correctly set in your environment. '' @
                ''If using OAuth2, ensure your token hasn't expired and refresh if needed.''
              else if code = 403 then
                ''Error: Permission denied - '' @ error_message @
                ''\<newline>Suggestion: Your account doesn't have permission to perform this operation. '' @
                ''Check that you have the required role (e.g., Admin for API key creation) or '' @
                ''that the resource belongs to your account.''
              else if code = 404 then
                ''Error: Resource not found - '' @ error_message @
                ''\<newline>Suggestion: Verify that the table name, record ID, or file ID is correct. '' @
                ''Use list/query tools to find the correct identifier.''
              else if code = 429 then
                ''Error: Rate limit exceeded (100 requests/minute or daily limit reached).'' @
                ''\<newline>Retry-After: '' @
                (case headers_get (headers resp) ''Retry-After'' of
                   None \<Rightarrow> ''unknown'' | Some v \<Rightarrow> v) @ '' seconds'' @
                ''\<newline>Suggestion: Wait before making more requests. Method CRM limits: '' @
                ''100 req/min per account, 5,000-25,000 daily depending on licenses.''
              else if code = 500 then
                ''Error: Method API server error occurred.'' @
                ''\<newline>Suggestion: This is a temporary server issue. Wait a moment and retry. '' @
                ''If the problem persists, check Method CRM status page or contact support.''
              else if code = 503 then
                ''Error: Method API service temporarily unavailable.'' @
                ''\<newline>Suggestion: The API is undergoing maintenance or experiencing high load. '' @
                ''Wait a few minutes and retry your request.''
              else
                ''Error: API request failed with status '' @ str_int code @ '' - '' @ error_message)
      | TimeoutException _ \<Rightarrow>
          ''Error: Request timed out while waiting for Method API response.'' @
          ''\<newline>Suggestion: The API might be slow or your network connection interrupted. '' @
          ''Try again, or increase METHOD_REQUEST_TIMEOUT in your configuration.''
      | ConnectError _ \<Rightarrow>
          ''Error: Unable to connect to Method API.'' @
          ''\<newline>Suggestion: Check your internet connection and verify that METHOD_API_BASE_URL '' @
          ''is correct (default: https://rest.method.me/api/v1/).''
      | MethodAPIError cls message code retry_after \<Rightarrow>
          (case cls of
             AuthenticationError \<Rightarrow>
               ''Error: '' @ message @ ''\<newline>Suggestion: Verify your authentication credentials.''
           | RateLimitError \<Rightarrow>
               ''Error: '' @ message @
               (if truthy_int retry_after
                then '' Retry after '' @ str_int (the retry_after) @ '' seconds.'' else []) @
               ''\<newline>Suggestion: Wait before making more requests to respect rate limits.''
           | ValidationError \<Rightarrow>
               ''Error: '' @ message @ ''\<newline>Suggestion: Check your input parameters and try again.''
           | NotFoundError \<Rightarrow>
               ''Error: '' @ message @ ''\<newline>Suggestion: Verify the resource ID and try again.''
           | PermissionError \<Rightarrow>
               ''Error: '' @ message @ ''\<newline>Suggestion: Check your account permissions.''
           | BaseError \<Rightarrow> ''Error: '' @ message)
      | OtherException error_type error_msg \<Rightarrow>
          ''Error: Unexpected '' @ error_type @ '' occurred - '' @ error_msg @
          ''\<newline>Suggestion: This is an unexpected error. Check your input parameters and '' @
          ''ensure the Method API is accessible. If the problem persists, report this issue.'')"

section \<open>utils.py: pagination\<close>

record pagination_info =
  total :: "int option"
  count :: int
  offset :: int
  limit :: int
  has_more :: bool
  next_offset :: "int option"

definition format_pagination_info ::
  "int option \<Rightarrow> int \<Rightarrow> int \<Rightarrow> int \<Rightarrow> pagination_info" where
  "format_pagination_info tot cnt off lmt =
     (let hm = (case tot of
                  Some t \<Rightarrow> t > off + cnt
                | None \<Rightarrow> cnt = lmt);
          nxt = (if hm then Some (off + cnt) else None)
      in \<lparr> total = tot, count = cnt, offset = off, limit = lmt,
           has_more = hm, next_offset = nxt \<rparr>)"

definition json_of_int_option :: "int option \<Rightarrow> json" where
  "json_of_int_option i = (case i of None \<Rightarrow> JNull | Some n \<Rightarrow> JInt n)"

text \<open>The dictionary \<open>format_pagination_info\<close> returns, keys in the order it writes them.\<close>

definition pagination_dict :: "pagination_info \<Rightarrow> (string \<times> json) list" where
  "pagination_dict p =
     [(''total'', json_of_int_option (total p)),
      (''count'', JInt (count p)),
      (''offset'', JInt (offset p)),
      (''limit'', JInt (limit p)),
      (''has_more'', JBool (has_more p)),
      (''next_offset'', json_of_int_option (next_offset p))]"

subsection \<open>\<open>json.loads(s)\<close>\<close>

text \<open>
  The standard decoder on the values of the model: whitespace is space, tab, newline and
  carriage return; a string ends at the first unescaped quote and may not hold a control
  character; a number is an optional minus sign and either \<open>0\<close> or a digit run without
  a leading zero; a dictionary keeps the last value of a repeated key. \<open>None\<close> stands
  for the \<open>JSONDecodeError\<close> it raises, and also for a document that holds a
  floating-point number or a character beyond code point 255. The functions that call
  each other through nested values take the number of calls they may still make, which
  \<open>json_loads\<close> sets above what a document of that length can use.
\<close>

definition is_json_ws :: "char \<Rightarrow> bool" where
  "is_json_ws c = (let n = (of_char c :: nat) in n = 32 \<or> n = 9 \<or> n = 10 \<or> n = 13)"

definition skip_ws :: "string \<Rightarrow> string" where
  "skip_ws s = dropWhile is_json_ws s"

definition hex_val :: "char \<Rightarrow> nat option" where
  "hex_val c =
     (let n = (of_char c :: nat) in
      if 48 \<le> n \<and> n \<le> 57 then Some (n - 48)
      else if 97 \<le> n \<and> n \<le> 102 then Some (n - 87)
      else if 65 \<le> n \<and> n \<le> 70 then Some (n - 55)
      else None)"

definition unescape :: "char \<Rightarrow> char option" where
  "unescape e =
     (let n = (of_char e :: nat) in
      if n = 34 then Some (CHR 0x22)
      else if n = 92 then Some (CHR 0x5C)
      else if n = 47 then Some (CHR ''/'')
      else if n = 98 then Some (CHR 0x08)
      else if n = 102 then Some (CHR 0x0C)
      else if n = 110 then Some (CHR 0x0A)
      else if n = 114 then Some (CHR 0x0D)
      else if n = 116 then Some (CHR 0x09)
      else None)"

definition hex4 :: "char \<Rightarrow> char \<Rightarrow> char \<Rightarrow> char \<Rightarrow> nat option" where
  "hex4 h1 h2 h3 h4 =
     (case hex_val h1 of None \<Rightarrow> None | Some a \<Rightarrow>
      case hex_val h2 of None \<Rightarrow> None | Some b \<Rightarrow>
      case hex_val h3 of None \<Rightarrow> None | Some c \<Rightarrow>
      case hex_val h4 of None \<Rightarrow> None | Some d \<Rightarrow>
        Some (((a * 16 + b) * 16 + c) * 16 + d))"

definition cons_result :: "char \<Rightarrow> (string \<times> string) option \<Rightarrow> (string \<times> string) option" where
  "cons_result c r = (case r of None \<Rightarrow> None | Some st \<Rightarrow> Some (c # fst st, snd st))"

text \<open>The characters after an opening quote: the decoded string and what follows it.\<close>

fun scan_string :: "string \<Rightarrow> (string \<times> string) option" where
  "scan_string [] = None"
| "scan_string [c] = (if (of_char c :: nat) = 34 then Some ([], []) else None)"
| "scan_string (c # e # cs) =
     (let n = (of_char c :: nat) in
      if n = 34 then Some ([], e # cs)
      else if n = 92 then
        (if (of_char e :: nat) = 117 then
           (case cs of
              h1 # h2 # h3 # h4 # cs' \<Rightarrow>
                (case hex4 h1 h2 h3 h4 of
                   None \<Rightarrow> None
                 | Some u \<Rightarrow> if u < 256 then cons_result (char_of u) (scan_string cs') else None)
            | _ \<Rightarrow> None)
         else
           (case unescape e of
              None \<Rightarrow> None
            | Some x \<Rightarrow> cons_result x (scan_string cs)))
      else if n < 32 then None
      else cons_result c (scan_string (e # cs)))"

definition digits_value :: "string \<Rightarrow> nat" where
  "digits_value ds = foldl (\<lambda>a c. 10 * a + digit_val c) 0 ds"

definition starts_fraction :: "string \<Rightarrow> bool" where
  "starts_fraction s =
     (case s of [] \<Rightarrow> False
      | c # _ \<Rightarrow> (of_char c :: nat) = 46 \<or> (of_char c :: nat) = 101 \<or> (of_char c :: nat) = 69)"

definition scan_digits :: "bool \<Rightarrow> string \<Rightarrow> (json \<times> string) option" where
  "scan_digits neg s =
     (case s of
        [] \<Rightarrow> None
      | d # r \<Rightarrow>
          if \<not> is_digit d then None
          else
            (let ds = (if (of_char d :: nat) = 48 then [d] else takeWhile is_digit s);
                 rest = (if (of_char d :: nat) = 48 then r else dropWhile is_digit s)
             in if starts_fraction rest then None
                else Some (JInt (if neg then - int (digits_value ds) else int (digits_value ds)),
                           rest)))"

text \<open>What may follow a number in a document: no digit and no fraction or exponent.\<close>

definition value_end :: "string \<Rightarrow> bool" where
  "value_end rest = (\<not> starts_fraction rest \<and> (case rest of [] \<Rightarrow> True | c # _ \<Rightarrow> \<not> is_digit c))"

text \<open>The characters a value can begin with.\<close>

definition value_start :: "string \<Rightarrow> bool" where
  "value_start s =
     (case s of
        [] \<Rightarrow> False
      | c # _ \<Rightarrow>
          (let n = (of_char c :: nat) in
           n = 110 \<or> n = 116 \<or> n = 102 \<or> n = 34 \<or> n = 91 \<or> n = 123 \<or> n = 45
           \<or> (48 \<le> n \<and> n \<le> 57)))"

definition scan_number :: "string \<Rightarrow> (json \<times> string) option" where
  "scan_number s =
     (case s of
        [] \<Rightarrow> None
      | c # r \<Rightarrow> if (of_char c :: nat) = 45 then scan_digits True r else scan_digits False s)"

definition dict_of_pairs :: "(string \<times> json) list \<Rightarrow> (string \<times> json) list" where
  "dict_of_pairs ps = foldl (\<lambda>d kv. AList.update (fst kv) (snd kv) d) [] ps"

fun parse_value :: "nat \<Rightarrow> string \<Rightarrow> (json \<times> string) option"
  and parse_elements :: "nat \<Rightarrow> string \<Rightarrow> (json list \<times> string) option"
  and parse_members :: "nat \<Rightarrow> string \<Rightarrow> ((string \<times> json) list \<times> string) option" where
  "parse_value 0 s = None"
| "parse_value (Suc fuel) s =
     (case s of
        [] \<Rightarrow> None
      | c # r \<Rightarrow>
          if take 4 s = ''null'' then Some (JNull, drop 4 s)
          else if take 4 s = ''true'' then Some (JBool True, drop 4 s)
          else if take 5 s = ''false'' then Some (JBool False, drop 5 s)
          else if (of_char c :: nat) = 34 then
            (case scan_string r of
               None \<Rightarrow> None
             | Some st \<Rightarrow> Some (JString (fst st), snd st))
          else if (of_char c :: nat) = 91 then
            (case skip_ws r of
               [] \<Rightarrow> None
             | c' # r' \<Rightarrow>
                 if (of_char c' :: nat) = 93 then Some (JArray [], r')
                 else (case parse_elements fuel (c' # r') of
                         None \<Rightarrow> None
                       | Some xr \<Rightarrow> Some (JArray (fst xr), snd xr)))
          else if (of_char c :: nat) = 123 then
            (case skip_ws r of
               [] \<Rightarrow> None
             | c' # r' \<Rightarrow>
                 if (of_char c' :: nat) = 125 then Some (JObject [], r')
                 else (case parse_members fuel (c' # r') of
                         None \<Rightarrow> None
                       | Some mr \<Rightarrow> Some (JObject (dict_of_pairs (fst mr)), snd mr)))
          else scan_number s)"
| "parse_elements 0 s = None"
| "parse_elements (Suc fuel) s =
     (case parse_value fuel s of
        None \<Rightarrow> None
      | Some vr \<Rightarrow>
          (case skip_ws (snd vr) of
             [] \<Rightarrow> None
           | c # r \<Rightarrow>
               if (of_char c :: nat) = 93 then Some ([fst vr], r)
               else if (of_char c :: nat) = 44 then
                 (case parse_elements fuel (skip_ws r) of
                    None \<Rightarrow> None
                  | Some xr \<Rightarrow> Some (fst vr # fst xr, snd xr))
               else None))"
| "parse_members 0 s = None"
| "parse_members (Suc fuel) s =
     (case s of
        [] \<Rightarrow> None
      | q # r \<Rightarrow>
          if (of_char q :: nat) \<noteq> 34 then None
          else
            (case scan_string r of
               None \<Rightarrow> None
             | Some kr \<Rightarrow>
                 (case skip_ws (snd kr) of
                    [] \<Rightarrow> None
                  | c # r1 \<Rightarrow>
                      if (of_char c :: nat) \<noteq> 58 then None
                      else
                        (case parse_value fuel (skip_ws r1) of
                           None \<Rightarrow> None
                         | Some vr \<Rightarrow>
                             (case skip_ws (snd vr) of
                                [] \<Rightarrow> None
                              | c' # r2 \<Rightarrow>
                                  if (of_char c' :: nat) = 125
                                    then Some ([(fst kr, fst vr)], r2)
                                  else if (of_char c' :: nat) = 44 then
                                    (case parse_members fuel (skip_ws r2) of
                                       None \<Rightarrow> None
                                     | Some mr \<Rightarrow> Some ((fst kr, fst vr) # fst mr, snd mr))
                                  else None)))))"

definition json_loads :: "string \<Rightarrow> json option" where
  "json_loads s =
     (case parse_value (2 * length s + 2) (skip_ws s) of
        None \<Rightarrow> None
      | Some vr \<Rightarrow> if skip_ws (snd vr) = [] then Some (fst vr) else None)"

text \<open>A value whose dictionaries have distinct keys, at every depth.\<close>

fun wf_json :: "json \<Rightarrow> bool"
  and wf_json_list :: "json list \<Rightarrow> bool"
  and wf_json_items :: "(string \<times> json) list \<Rightarrow> bool" where
  "wf_json (JArray xs) = wf_json_list xs"
| "wf_json (JObject kvs) = (distinct (map fst kvs) \<and> wf_json_items kvs)"
| "wf_json JNull = True"
| "wf_json (JBool b) = True"
| "wf_json (JInt i) = True"
| "wf_json (JString s) = True"
| "wf_json_list [] = True"
| "wf_json_list (x # xs) = (wf_json x \<and> wf_json_list xs)"
| "wf_json_items [] = True"
| "wf_json_items (kv # kvs) = (wf_json (snd kv) \<and> wf_json_items kvs)"

section \<open>utils.py: the JSON envelope\<close>

text \<open>
  \<open>format_json_response\<close> builds a dictionary and hands it to \<open>json.dumps\<close>. What it
  asks of Python is collected in a record, over any type \<open>'v\<close> of Python values and any
  type \<open>'s\<close> of Python strings: the value of a boolean, of a string and of a dictionary
  (its items in insertion order), the string a literal of the program text denotes, the
  truth value of a string under \<open>if\<close>, the test
  \<open>isinstance(data, dict) and "error" in data\<close> together with \<open>data["error"]\<close>,
  \<open>json.dumps(_, indent=2, default=str)\<close>, and \<open>json.loads\<close> (\<open>None\<close> when it raises).
\<close>

record ('v, 's) python =
  bool_value :: "bool \<Rightarrow> 'v"
  str_value :: "'s \<Rightarrow> 'v"
  dict_value :: "('s \<times> 'v) list \<Rightarrow> 'v"
  literal :: "string \<Rightarrow> 's"
  str_truthy :: "'s \<Rightarrow> bool"
  error_item :: "'v \<Rightarrow> 'v option"
  dumps :: "'v \<Rightarrow> 's"
  loads :: "'s \<Rightarrow> 'v option"

text \<open>
  The dictionary \<open>format_json_response\<close> builds before it serialises it: \<open>success\<close>,
  then \<open>message\<close> when the message is given and not empty, then \<open>error\<close> when the
  payload is a dictionary with an \<open>error\<close> key and \<open>data\<close> otherwise.
\<close>

definition response_envelope_on ::
  "('v, 's) python \<Rightarrow> 'v \<Rightarrow> bool \<Rightarrow> 's option \<Rightarrow> ('s \<times> 'v) list" where
  "response_envelope_on P data success message =
     (let response = [(literal P ''success'', bool_value P success)];
          response = (case message of
                        None \<Rightarrow> response
                      | Some m \<Rightarrow>
                          if str_truthy P m
                          then AList.update (literal P ''message'') (str_value P m) response
                          else response)
      in case error_item P data of
           Some err \<Rightarrow> AList.update (literal P ''error'') err response
         | None \<Rightarrow> AList.update (literal P ''data'') data response)"

definition format_json_response_on ::
  "('v, 's) python \<Rightarrow> 'v \<Rightarrow> bool \<Rightarrow> 's option \<Rightarrow> 's" where
  "format_json_response_on P data success message =
     dumps P (dict_value P (response_envelope_on P data success message))"

text \<open>
  The values and the strings of this development as such a record, with the encoder and
  the decoder above. The tools below format their answers with it.
\<close>

definition json_python :: "(json, string) python" where
  "json_python =
     \<lparr> bool_value = JBool, str_value = JString, dict_value = JObject,
       literal = (\<lambda>s. s), str_truthy = (\<lambda>s. s \<noteq> []),
       error_item = (\<lambda>data. case data of JObject kvs \<Rightarrow> map_of kvs ''error'' | _ \<Rightarrow> None),
       dumps = json_dumps, loads = json_loads \<rparr>"

definition response_envelope :: "json \<Rightarrow> bool \<Rightarrow> string option \<Rightarrow> (string \<times> json) list" where
  "response_envelope data success message = response_envelope_on json_python data success message"

definition format_json_response :: "json \<Rightarrow> bool \<Rightarrow> string option \<Rightarrow> string" where
  "format_json_response data success message =
     format_json_response_on json_python data success message"

section \<open>auth.py: authentication strategies and their selection\<close>

datatype auth =
    APIKeyAuth string
  | OAuth2AuthorizationCodeAuth string string string string string
  | OAuth2ClientCredentialsAuth string string string
  | OAuth2ImplicitAuth string string

definition APIKeyAuth_init :: "string \<Rightarrow> exn + auth" where
  "APIKeyAuth_init api_key =
     (if api_key = [] \<or> strip api_key = []
      then Inl (MethodAPIError AuthenticationError ''API key cannot be empty'' None None)
      else Inr (APIKeyAuth (strip api_key)))"

definition not_implemented :: "string \<Rightarrow> exn" where
  "not_implemented flow =
     OtherException ''NotImplementedError''
       (''OAuth2 '' @ flow @ '' is not yet implemented. '' @
        ''Please use API Key authentication (METHOD_API_KEY) for now. '' @
        ''OAuth2 support is coming in a future release.'')"

definition get_headers :: "auth \<Rightarrow> exn + (string \<times> string) list" where
  "get_headers a =
     (case a of
        APIKeyAuth api_key \<Rightarrow>
          Inr [(''Authorization'', ''APIKey '' @ api_key),
               (''Content-Type'', ''application/json'')]
      | OAuth2AuthorizationCodeAuth _ _ _ _ _ \<Rightarrow> Inl (not_implemented ''Authorization Code Flow'')
      | OAuth2ClientCredentialsAuth _ _ _ \<Rightarrow> Inl (not_implemented ''Client Credentials Flow'')
      | OAuth2ImplicitAuth _ _ \<Rightarrow> Inl (not_implemented ''Implicit Flow''))"

definition is_valid :: "auth \<Rightarrow> bool" where
  "is_valid a = (case a of APIKeyAuth api_key \<Rightarrow> api_key \<noteq> [] | _ \<Rightarrow> False)"

record auth_manager =
  auth :: "auth option"
  auth_method :: string

definition getenv_default :: "(string \<Rightarrow> string option) \<Rightarrow> string \<Rightarrow> string \<Rightarrow> string" where
  "getenv_default env name dflt = (case env name of None \<Rightarrow> dflt | Some v \<Rightarrow> v)"

definition no_credentials_error :: exn where
  "no_credentials_error =
     MethodAPIError AuthenticationError
       (''No authentication credentials found. Please set one of:\<newline>'' @
        ''1. METHOD_API_KEY for API key authentication (recommended)\<newline>'' @
        ''2. METHOD_CLIENT_ID and METHOD_CLIENT_SECRET for OAuth2 (coming soon)\<newline>'' @
        ''See .env.example for configuration details.'') None None"

text \<open>\<open>AuthManager.__init__\<close>: the scan over the environment, in the order the code tests.\<close>

definition AuthManager_init :: "(string \<Rightarrow> string option) \<Rightarrow> exn + auth_manager" where
  "AuthManager_init env =
     (let api_key = env ''METHOD_API_KEY'' in
      if truthy_str api_key then
        (case APIKeyAuth_init (the api_key) of
           Inl e \<Rightarrow> Inl e
         | Inr a \<Rightarrow> Inr \<lparr> auth = Some a, auth_method = ''api_key'' \<rparr>)
      else
        let client_id = env ''METHOD_CLIENT_ID'';
            client_secret = env ''METHOD_CLIENT_SECRET'';
            redirect_uri = env ''METHOD_REDIRECT_URI''
        in
        if truthy_str client_id \<and> truthy_str client_secret \<and> truthy_str redirect_uri then
          (let authorize_url = getenv_default env ''METHOD_OAUTH_AUTHORIZE_URL''
                                 ''https://rest.method.me/oauth/authorize'';
               token_url = getenv_default env ''METHOD_OAUTH_TOKEN_URL''
                             ''https://rest.method.me/oauth/token''
           in Inr \<lparr> auth = Some (OAuth2AuthorizationCodeAuth (the client_id) (the client_secret)
                                   (the redirect_uri) authorize_url token_url),
                    auth_method = ''oauth2_authorization_code'' \<rparr>)
        else if truthy_str client_id \<and> truthy_str client_secret then
          (let token_url = getenv_default env ''METHOD_OAUTH_TOKEN_URL''
                             ''https://rest.method.me/oauth/token''
           in Inr \<lparr> auth = Some (OAuth2ClientCredentialsAuth (the client_id) (the client_secret)
                                   token_url),
                    auth_method = ''oauth2_client_credentials'' \<rparr>)
        else if truthy_str client_id then
          (let authorize_url = getenv_default env ''METHOD_OAUTH_AUTHORIZE_URL''
                                 ''https://rest.method.me/oauth/authorize''
           in Inr \<lparr> auth = Some (OAuth2ImplicitAuth (the client_id) authorize_url),
                    auth_method = ''oauth2_implicit'' \<rparr>)
        else
          Inl no_credentials_error)"

definition manager_get_headers :: "auth_manager \<Rightarrow> exn + (string \<times> string) list" where
  "manager_get_headers am =
     (case auth am of
        None \<Rightarrow> Inl (MethodAPIError AuthenticationError ''No authentication method configured''
                       None None)
      | Some a \<Rightarrow> get_headers a)"

definition manager_is_valid :: "auth_manager \<Rightarrow> bool" where
  "manager_is_valid am = (case auth am of None \<Rightarrow> False | Some a \<Rightarrow> is_valid a)"

section \<open>client.py: the API client\<close>

text \<open>
  What an HTTP call hands to the transport. \<open>files\<close> is the multipart file part (the
  file name and the bytes), \<open>form_data\<close> its companion fields.
\<close>

record http_request =
  http_method :: string
  url :: string
  req_headers :: "(string \<times> string) list"
  params :: "(string \<times> json) list option"
  json_data :: "json option"
  files :: "(string \<times> nat list) option"
  form_data :: "(string \<times> json) list option"
  req_timeout :: real
  follow_redirects :: bool

text \<open>
  The world outside the process: the environment variables, \<open>float()\<close> on a string
  (\<open>None\<close> for its \<open>ValueError\<close>), and the HTTP transport, which answers the request
  number \<open>n\<close> (counted from 0) with a response or raises.
\<close>

record world =
  environ :: "string \<Rightarrow> string option"
  py_float :: "string \<Rightarrow> real option"
  http :: "nat \<Rightarrow> http_request \<Rightarrow> exn + response"

record api_client =
  base_url :: string
  auth_manager :: auth_manager
  timeout :: real
  max_retries :: int

definition resolve_base_url :: "world \<Rightarrow> string option \<Rightarrow> string" where
  "resolve_base_url W base_url_arg =
     (if truthy_str base_url_arg then the base_url_arg
      else rstrip_chars CHR ''/''
             (getenv_default (environ W) ''METHOD_API_BASE_URL'' ''https://rest.method.me/api/v1/''))"

definition resolve_timeout :: "world \<Rightarrow> real \<Rightarrow> exn + real" where
  "resolve_timeout W timeout_arg =
     (case environ W ''METHOD_REQUEST_TIMEOUT'' of
        None \<Rightarrow> Inr timeout_arg
      | Some s \<Rightarrow>
          (case py_float W s of
             None \<Rightarrow> Inl (OtherException ''ValueError''
                            (''could not convert string to float: '' @ py_repr_str s))
           | Some t \<Rightarrow> Inr t))"

definition value_error :: "string \<Rightarrow> exn" where
  "value_error msg = OtherException ''ValueError'' msg"

definition int_value_error :: "string \<Rightarrow> exn" where
  "int_value_error s = value_error (invalid_literal s)"

definition resolve_max_retries :: "world \<Rightarrow> int \<Rightarrow> exn + int" where
  "resolve_max_retries W max_retries_arg =
     (case environ W ''METHOD_MAX_RETRIES'' of
        None \<Rightarrow> Inr max_retries_arg
      | Some s \<Rightarrow>
          (case py_int s of
             Inl msg \<Rightarrow> Inl (value_error msg)
           | Inr r \<Rightarrow> Inr r))"

text \<open>\<open>MethodAPIClient.__init__\<close>, statement by statement.\<close>

definition MethodAPIClient_init ::
  "world \<Rightarrow> string option \<Rightarrow> auth_manager option \<Rightarrow> real \<Rightarrow> int \<Rightarrow> exn + api_client" where
  "MethodAPIClient_init W base_url_arg auth_manager_arg timeout_arg max_retries_arg =
     (let b = resolve_base_url W base_url_arg in
      case (case auth_manager_arg of
              Some am \<Rightarrow> Inr am
            | None \<Rightarrow> AuthManager_init (environ W)) of
        Inl e \<Rightarrow> Inl e
      | Inr am \<Rightarrow>
          (case resolve_timeout W timeout_arg of
             Inl e \<Rightarrow> Inl e
           | Inr t \<Rightarrow>
               (case resolve_max_retries W max_retries_arg of
                  Inl e \<Rightarrow> Inl e
                | Inr r \<Rightarrow>
                    if \<not> manager_is_valid am
                    then Inl (MethodAPIError AuthenticationError ''Authentication is not valid''
                                None None)
                    else Inr \<lparr> base_url = b, auth_manager = am, timeout = t,
                               max_retries = r \<rparr>)))"

text \<open>\<open>MethodAPIClient()\<close> with every argument at its default.\<close>

definition MethodAPIClient_new :: "world \<Rightarrow> exn + api_client" where
  "MethodAPIClient_new W = MethodAPIClient_init W None None 30 3"

text \<open>\<open>raise_for_status()\<close> raises for every status outside 200 to 299.\<close>

definition is_success :: "int \<Rightarrow> bool" where
  "is_success code = (200 \<le> code \<and> code \<le> 299)"

definition no_content_marker :: json where
  "no_content_marker =
     JObject [(''success'', JBool True), (''message'', JString ''Operation completed successfully'')]"

text \<open>The statements of \<open>request\<close> that follow the HTTP call, before the handler.\<close>

definition status_handling :: "response \<Rightarrow> exn + json" where
  "status_handling resp =
     (if status_code resp = 429 then
        (let retry_after = headers_get (headers resp) ''Retry-After'' in
         if truthy_str retry_after then
           (case py_int (the retry_after) of
              Inl msg \<Rightarrow> Inl (value_error msg)
            | Inr n \<Rightarrow> Inl (MethodAPIError RateLimitError ''Rate limit exceeded'' (Some 429) (Some n)))
         else Inl (MethodAPIError RateLimitError ''Rate limit exceeded'' (Some 429) None))
      else if \<not> is_success (status_code resp) then
        Inl (HTTPStatusError resp (error_text resp))
      else if status_code resp = 204 then
        Inr no_content_marker
      else
        (case json_body resp of
           Inl err \<Rightarrow> Inl (OtherException (fst err) (snd err))
         | Inr v \<Rightarrow> Inr v))"

text \<open>The \<open>except Exception\<close> handler of \<open>request\<close>.\<close>

definition wrap_exception :: "exn + json \<Rightarrow> exn + json" where
  "wrap_exception r =
     (case r of
        Inr v \<Rightarrow> Inr v
      | Inl e \<Rightarrow>
          (case e of
             MethodAPIError _ _ _ _ \<Rightarrow> Inl e
           | _ \<Rightarrow> Inl (MethodAPIError BaseError (handle_api_error e) None None)))"

text \<open>
  One run of the body of \<open>request\<close>. The second component is the list of HTTP requests
  handed to the transport so far.
\<close>

definition request_attempt ::
  "world \<Rightarrow> api_client \<Rightarrow> http_request list \<Rightarrow> string \<Rightarrow> string
     \<Rightarrow> (string \<times> json) list option \<Rightarrow> json option
     \<Rightarrow> (exn + json) \<times> http_request list" where
  "request_attempt W self sent method endpoint query body =
     (let u = base_url self @ ''/'' @ lstrip_chars CHR ''/'' endpoint in
      case manager_get_headers (auth_manager self) of
        Inl e \<Rightarrow> (wrap_exception (Inl e), sent)
      | Inr hs \<Rightarrow>
          (let req = \<lparr> http_method = method, url = u, req_headers = hs, params = query,
                       json_data = body, files = None, form_data = None,
                       req_timeout = timeout self, follow_redirects = True \<rparr>
           in case http W (length sent) req of
                Inl e \<Rightarrow> (wrap_exception (Inl e), sent @ [req])
              | Inr resp \<Rightarrow> (wrap_exception (status_handling resp), sent @ [req])))"

text \<open>
  The retry decorator: the exception that leaves the body is retried when it is a
  \<open>TimeoutException\<close> or a \<open>ConnectError\<close>, until the attempt number reaches 3; with
  \<open>reraise=True\<close> the last exception is raised as it is.
\<close>

definition retry_if_exception_type :: "exn \<Rightarrow> bool" where
  "retry_if_exception_type e =
     (case e of TimeoutException _ \<Rightarrow> True | ConnectError _ \<Rightarrow> True | _ \<Rightarrow> False)"

function retrying ::
  "world \<Rightarrow> api_client \<Rightarrow> nat \<Rightarrow> http_request list \<Rightarrow> string \<Rightarrow> string
     \<Rightarrow> (string \<times> json) list option \<Rightarrow> json option
     \<Rightarrow> (exn + json) \<times> http_request list" where
  "retrying W self attempt_number sent method endpoint query body =
     (let r = request_attempt W self sent method endpoint query body in
      case fst r of
        Inr v \<Rightarrow> r
      | Inl e \<Rightarrow>
          if retry_if_exception_type e \<and> attempt_number < 3
          then retrying W self (Suc attempt_number) (snd r) method endpoint query body
          else r)"
  by pat_completeness auto
termination
  by (relation "measure (\<lambda>(W, self, n, rest). 3 - n)") auto

declare retrying.simps [simp del]

definition request ::
  "world \<Rightarrow> api_client \<Rightarrow> http_request list \<Rightarrow> string \<Rightarrow> string
     \<Rightarrow> (string \<times> json) list option \<Rightarrow> json option
     \<Rightarrow> (exn + json) \<times> http_request list" where
  "request W self sent method endpoint query body =
     retrying W self 1 sent method endpoint query body"

definition client_get ::
  "world \<Rightarrow> api_client \<Rightarrow> http_request list \<Rightarrow> string \<Rightarrow> (string \<times> json) list option
     \<Rightarrow> (exn + json) \<times> http_request list" where
  "client_get W self sent endpoint query = request W self sent ''GET'' endpoint query None"

section \<open>tools: the handlers for table queries and file uploads\<close>

text \<open>
  The state a handler works on: the module's lazily created client (\<open>_client\<close>) and the
  HTTP requests the process has handed to the transport.
\<close>

record state =
  client_slot :: "api_client option"
  sent :: "http_request list"

definition get_client :: "world \<Rightarrow> state \<Rightarrow> (exn + api_client) \<times> state" where
  "get_client W st =
     (case client_slot st of
        Some c \<Rightarrow> (Inr c, st)
      | None \<Rightarrow>
          (case MethodAPIClient_new W of
             Inl e \<Rightarrow> (Inl e, st)
           | Inr c \<Rightarrow> (Inr c, st\<lparr>client_slot := Some c\<rparr>)))"

text \<open>The boundary every handler ends with: \<open>except Exception as e: return handle_api_error(e)\<close>.\<close>

definition tool_boundary :: "(exn + string) \<times> state \<Rightarrow> string \<times> state" where
  "tool_boundary r = (case fst r of Inl e \<Rightarrow> (handle_api_error e, snd r) | Inr s \<Rightarrow> (s, snd r))"

definition exn_str :: "exn \<Rightarrow> string" where
  "exn_str e =
     (case e of
        HTTPStatusError _ s \<Rightarrow> s
      | TimeoutException s \<Rightarrow> s
      | ConnectError s \<Rightarrow> s
      | MethodAPIError _ m _ _ \<Rightarrow> m
      | OtherException _ s \<Rightarrow> s)"

definition attribute_error :: "json \<Rightarrow> string \<Rightarrow> exn" where
  "attribute_error v name =
     OtherException ''AttributeError''
       ([CHR 0x27] @ py_type_name v @ [CHR 0x27] @ '' object has no attribute '' @
        [CHR 0x27] @ name @ [CHR 0x27])"

definition dict_get :: "(string \<times> json) list \<Rightarrow> string \<Rightarrow> json" where
  "dict_get kvs k = (case map_of kvs k of None \<Rightarrow> JNull | Some v \<Rightarrow> v)"

definition py_len :: "json \<Rightarrow> exn + nat" where
  "py_len v =
     (case v of
        JString s \<Rightarrow> Inr (length s)
      | JArray xs \<Rightarrow> Inr (length xs)
      | JObject kvs \<Rightarrow> Inr (length kvs)
      | _ \<Rightarrow> Inl (OtherException ''TypeError''
                    (''object of type '' @ [CHR 0x27] @ py_type_name v @ [CHR 0x27] @
                     '' has no len()'')))"

subsection \<open>tools/tables.py: \<open>method_tables_query\<close>\<close>

datatype ResponseFormat = MARKDOWN | JSON

record table_query_input =
  table :: string
  filter_expr :: "string option"
  select :: "string option"
  top :: "int option"
  skip :: "int option"
  orderby :: "string option"
  expand :: "string option"
  aggregate :: "string option"
  response_format :: ResponseFormat

definition opt_str_param ::
  "string \<Rightarrow> string option \<Rightarrow> (string \<times> json) list \<Rightarrow> (string \<times> json) list" where
  "opt_str_param key v d = (if truthy_str v then AList.update key (JString (the v)) d else d)"

definition opt_int_param ::
  "string \<Rightarrow> int option \<Rightarrow> (string \<times> json) list \<Rightarrow> (string \<times> json) list" where
  "opt_int_param key v d = (if truthy_int v then AList.update key (JInt (the v)) d else d)"

definition build_query_params :: "table_query_input \<Rightarrow> (string \<times> json) list" where
  "build_query_params p =
     opt_str_param ''$apply'' (aggregate p)
      (opt_str_param ''$expand'' (expand p)
       (opt_str_param ''$orderby'' (orderby p)
        (opt_int_param ''$skip'' (skip p)
         (opt_int_param ''$top'' (top p)
          (opt_str_param ''$select'' (select p)
           (opt_str_param ''$filter'' (filter_expr p) []))))))"

definition int_or :: "int option \<Rightarrow> int \<Rightarrow> int" where
  "int_or v dflt = (if truthy_int v then the v else dflt)"

text \<open>
  \<open>format_pagination_info(total=None, count=count, ...)\<close> on the \<open>count\<close> the response
  carries. A Python \<open>bool\<close> is an \<open>int\<close>; any other value that is not an integer is
  unequal to the limit, and stays in the dictionary as it is.
\<close>

definition py_int_value :: "json \<Rightarrow> int option" where
  "py_int_value v =
     (case v of JInt i \<Rightarrow> Some i | JBool b \<Rightarrow> Some (if b then 1 else 0) | _ \<Rightarrow> None)"

definition query_pagination :: "json \<Rightarrow> int \<Rightarrow> int \<Rightarrow> (string \<times> json) list" where
  "query_pagination cnt off lmt =
     AList.update ''count'' cnt
       (pagination_dict
          (case py_int_value cnt of
             Some c \<Rightarrow> format_pagination_info None c off lmt
           | None \<Rightarrow> \<lparr> total = None, count = 0, offset = off, limit = lmt,
                        has_more = False, next_offset = None \<rparr>))"

text \<open>
  The pagination dictionary of the query handler after its two assignments:
  \<open>has_more\<close> from the presence of \<open>nextLink\<close>, and the new key \<open>next_link\<close>.
\<close>

definition query_pagination_adjusted ::
  "(string \<times> json) list \<Rightarrow> int \<Rightarrow> int \<Rightarrow> json \<Rightarrow> (string \<times> json) list" where
  "query_pagination_adjusted resp off lmt records_len =
     (let cnt = (case map_of resp ''count'' of None \<Rightarrow> records_len | Some c \<Rightarrow> c);
          next_link = dict_get resp ''nextLink'';
          hm = (next_link \<noteq> JNull);
          pagination = query_pagination cnt off lmt;
          pagination = AList.update ''has_more'' (JBool hm) pagination
      in AList.update ''next_link'' next_link pagination)"

text \<open>
  The Markdown table renderer \<open>format_markdown_table(data, title)\<close> writes check marks,
  which are not 8-bit characters; it is a parameter here, free to return any text or to
  raise.
\<close>

definition method_tables_query_body ::
  "(json \<Rightarrow> string \<Rightarrow> exn + string) \<Rightarrow> world \<Rightarrow> state \<Rightarrow> table_query_input
     \<Rightarrow> (exn + string) \<times> state" where
  "method_tables_query_body format_markdown_table W st p =
     (case get_client W st of
        (Inl e, st1) \<Rightarrow> (Inl e, st1)
      | (Inr client, st1) \<Rightarrow>
          (let query_params = build_query_params p;
               endpoint = ''tables/'' @ table p;
               r = client_get W client (sent st1) endpoint (Some query_params);
               st2 = st1\<lparr>sent := snd r\<rparr>
           in case fst r of
                Inl e \<Rightarrow> (Inl e, st2)
              | Inr resp \<Rightarrow>
                  (case resp of
                     JObject kvs \<Rightarrow>
                       (let records = (case map_of kvs ''value'' of
                                         None \<Rightarrow> JArray [] | Some v \<Rightarrow> v)
                        in case py_len records of
                             Inl e \<Rightarrow> (Inl e, st2)
                           | Inr n \<Rightarrow>
                               (let off = int_or (skip p) 0;
                                    pagination = query_pagination_adjusted kvs off
                                                   (int_or (top p) 10) (JInt (int n))
                                in if response_format p = MARKDOWN then
                                     (if \<not> py_truthy records then
                                        (Inr (''# Query Results: '' @ table p @
                                              ''\<newline>\<newline>No records found matching the query.''), st2)
                                      else
                                        (case format_markdown_table records
                                                (''Query Results: '' @ table p @ '' ('' @
                                                 py_str (dict_get pagination ''count'') @
                                                 '' records)'') of
                                           Inl e \<Rightarrow> (Inl e, st2)
                                         | Inr table_md \<Rightarrow>
                                             (Inr (table_md @
                                                   ''\<newline>\<newline>**Pagination**: Showing records '' @
                                                   str_int (off + 1) @ ''-'' @
                                                   str_int (off + int n) @
                                                   (if py_truthy (dict_get pagination ''has_more'')
                                                    then '' | More records available | Next offset: '' @
                                                         py_str (dict_get pagination ''next_offset'')
                                                    else '' | No more records'')), st2)))
                                   else
                                     (Inr (format_json_response
                                             (JObject (AList.update ''records'' records pagination))
                                             True None), st2)))
                   | _ \<Rightarrow> (Inl (attribute_error resp ''get''), st2))))"

definition method_tables_query ::
  "(json \<Rightarrow> string \<Rightarrow> exn + string) \<Rightarrow> world \<Rightarrow> state \<Rightarrow> table_query_input
     \<Rightarrow> string \<times> state" where
  "method_tables_query format_markdown_table W st p =
     tool_boundary (method_tables_query_body format_markdown_table W st p)"

subsection \<open>tools/files.py: \<open>method_files_upload\<close>\<close>

text \<open>
  \<open>base64.b64decode(s)\<close> on a string, without validation: the string must be ASCII;
  characters outside the alphabet are skipped; decoding stops at a complete pad sequence;
  an incomplete last group is an error.
\<close>

definition b64_value :: "char \<Rightarrow> nat option" where
  "b64_value c =
     (let n = (of_char c :: nat) in
      if 65 \<le> n \<and> n \<le> 90 then Some (n - 65)
      else if 97 \<le> n \<and> n \<le> 122 then Some (n - 71)
      else if 48 \<le> n \<and> n \<le> 57 then Some (n + 4)
      else if n = 43 then Some 62
      else if n = 47 then Some 63
      else None)"

definition binascii_error :: "string \<Rightarrow> exn" where
  "binascii_error msg = OtherException ''Error'' msg"

fun a2b_base64 :: "nat \<Rightarrow> nat \<Rightarrow> nat \<Rightarrow> nat list \<Rightarrow> string \<Rightarrow> exn + nat list" where
  "a2b_base64 quad_pos leftchar pads out [] =
     (if quad_pos = 0 then Inr out
      else if quad_pos = 1 then
        Inl (binascii_error
               (''Invalid base64-encoded string: number of data characters ('' @
                str_nat (length out div 3 * 4 + 1) @
                '') cannot be 1 more than a multiple of 4''))
      else Inl (binascii_error ''Incorrect padding''))"
| "a2b_base64 quad_pos leftchar pads out (c # cs) =
     (if c = CHR ''='' then
        (if quad_pos \<ge> 2 then
           (if quad_pos + (pads + 1) \<ge> 4 then Inr out
            else a2b_base64 quad_pos leftchar (pads + 1) out cs)
         else a2b_base64 quad_pos leftchar pads out cs)
      else
        (case b64_value c of
           None \<Rightarrow> a2b_base64 quad_pos leftchar pads out cs
         | Some v \<Rightarrow>
             if quad_pos = 0 then a2b_base64 1 v 0 out cs
             else if quad_pos = 1 then
               a2b_base64 2 (v mod 16) 0 (out @ [leftchar * 4 + v div 16]) cs
             else if quad_pos = 2 then
               a2b_base64 3 (v mod 4) 0 (out @ [leftchar * 16 + v div 4]) cs
             else a2b_base64 0 0 0 (out @ [leftchar * 64 + v]) cs))"

definition b64decode :: "string \<Rightarrow> exn + nat list" where
  "b64decode s =
     (if list_ex (\<lambda>c. (of_char c :: nat) \<ge> 128) s
      then Inl (OtherException ''ValueError''
                  ''string argument should contain only ASCII characters'')
      else a2b_base64 0 0 0 [] s)"

record file_upload_input =
  filename :: string
  content :: string
  link_table :: string
  link_record_id :: string
  description :: "string option"

definition max_size :: nat where
  "max_size = 50 * 1024 * 1024"

definition error_envelope :: "string \<Rightarrow> string" where
  "error_envelope msg = format_json_response (JObject [(''error'', JString msg)]) False None"

text \<open>The companion fields of the multipart upload; \<open>int(...)\<close> may raise.\<close>

definition upload_form_data :: "file_upload_input \<Rightarrow> exn + (string \<times> json) list" where
  "upload_form_data p =
     (let d = (if link_table p \<noteq> [] then AList.update ''table'' (JString (link_table p)) [] else [])
      in case (if link_record_id p \<noteq> []
               then (case py_int (link_record_id p) of
                       Inl msg \<Rightarrow> Inl (value_error msg)
                     | Inr i \<Rightarrow> Inr (AList.update ''recordId'' (JInt i) d))
               else Inr d) of
           Inl e \<Rightarrow> Inl e
         | Inr d' \<Rightarrow>
             Inr (if truthy_str (description p)
                  then AList.update ''description'' (JString (the (description p))) d'
                  else d'))"

text \<open>The statements after the upload's HTTP call.\<close>

definition upload_response :: "file_upload_input \<Rightarrow> response \<Rightarrow> exn + string" where
  "upload_response p resp =
     (if status_code resp = 413 then
        Inr (error_envelope ''File size exceeds 50MB limit or storage quota (10GB) exceeded'')
      else if \<not> is_success (status_code resp) then
        Inl (HTTPStatusError resp (error_text resp))
      else
        (case json_body resp of
           Inl err \<Rightarrow> Inl (OtherException (fst err) (snd err))
         | Inr result \<Rightarrow>
             (case result of
                JObject kvs \<Rightarrow>
                  Inr (format_json_response
                         (JObject
                            [(''FileId'', dict_get kvs ''id''),
                             (''Filename'', dict_get kvs ''filename''),
                             (''FileExtension'', dict_get kvs ''fileExtension''),
                             (''Size'', dict_get kvs ''size''),
                             (''LinkedTable'', JString (link_table p)),
                             (''LinkedRecordId'', JString (link_record_id p)),
                             (''CreatedBy'', dict_get kvs ''createdBy''),
                             (''UploadedAt'', dict_get kvs ''createdDate'')])
                         True
                         (Some (''File '' @ [CHR 0x27] @ filename p @ [CHR 0x27] @
                                '' uploaded successfully'')))
              | _ \<Rightarrow> Inl (attribute_error result ''get''))))"

definition method_files_upload_body ::
  "world \<Rightarrow> state \<Rightarrow> file_upload_input \<Rightarrow> (exn + string) \<times> state" where
  "method_files_upload_body W st p =
     (case get_client W st of
        (Inl e, st1) \<Rightarrow> (Inl e, st1)
      | (Inr client, st1) \<Rightarrow>
          (case b64decode (content p) of
             Inl decode_error \<Rightarrow>
               (Inr (error_envelope (''Invalid base64 content: '' @ exn_str decode_error)), st1)
           | Inr file_bytes \<Rightarrow>
               if length file_bytes > max_size then
                 (Inr (error_envelope
                         (''File size ('' @ str_nat (length file_bytes) @
                          '' bytes) exceeds 50MB limit ('' @ str_nat max_size @ '' bytes)'')), st1)
               else
                 (case upload_form_data p of
                    Inl e \<Rightarrow> (Inl e, st1)
                  | Inr d \<Rightarrow>
                      (case manager_get_headers (auth_manager client) of
                         Inl e \<Rightarrow> (Inl e, st1)
                       | Inr hs \<Rightarrow>
                           (let req = \<lparr> http_method = ''POST'',
                                        url = base_url client @ ''/files'',
                                        req_headers = AList.delete ''Content-Type'' hs,
                                        params = None, json_data = None,
                                        files = Some (filename p, file_bytes),
                                        form_data = (if d = [] then None else Some d),
                                        req_timeout = timeout client,
                                        follow_redirects = False \<rparr>;
                                st2 = st1\<lparr>sent := sent st1 @ [req]\<rparr>
                            in case http W (length (sent st1)) req of
                                 Inl e \<Rightarrow> (Inl e, st2)
                               | Inr resp \<Rightarrow> (upload_response p resp, st2))))))"

definition method_files_upload :: "world \<Rightarrow> state \<Rightarrow> file_upload_input \<Rightarrow> string \<times> state" where
  "method_files_upload W st p = tool_boundary (method_files_upload_body W st p)"

section \<open>Concrete inputs\<close>

definition api_key_manager :: auth_manager where
  "api_key_manager = \<lparr> auth = Some (APIKeyAuth ''secret-key''), auth_method = ''api_key'' \<rparr>"

definition demo_client :: api_client where
  "demo_client = \<lparr> base_url = ''https://rest.method.me/api/v1'', auth_manager = api_key_manager,
                    timeout = 30, max_retries = 3 \<rparr>"

definition ok_response :: response where
  "ok_response = \<lparr> status_code = 200, headers = [],
                    json_body = Inr (JObject [(''ok'', JBool True)]), error_text = [] \<rparr>"

text \<open>A transport whose first two calls fail to connect and whose third call succeeds.\<close>

definition flaky_world :: world where
  "flaky_world =
     \<lparr> environ = [''METHOD_API_KEY'' \<mapsto> ''secret-key''],
       py_float = (\<lambda>s. None),
       http = (\<lambda>n req. if n < 2 then Inl (ConnectError ''All connection attempts failed'')
                        else Inr ok_response) \<rparr>"

definition me_request :: http_request where
  "me_request =
     \<lparr> http_method = ''GET'', url = ''https://rest.method.me/api/v1/me'',
       req_headers = [(''Authorization'', ''APIKey secret-key''),
                      (''Content-Type'', ''application/json'')],
       params = None, json_data = None, files = None, form_data = None,
       req_timeout = 30, follow_redirects = True \<rparr>"

text \<open>A rate-limit response whose \<open>Retry-After\<close> header is an HTTP date.\<close>

definition dated_429 :: response where
  "dated_429 = \<lparr> status_code = 429,
                  headers = [(''Retry-After'', ''Wed, 21 Oct 2015 07:28:00 GMT'')],
                  json_body = Inl (''JSONDecodeError'', ''Expecting value: line 1 column 1 (char 0)''),
                  error_text = [] \<rparr>"

definition rate_limited_world :: world where
  "rate_limited_world =
     \<lparr> environ = [''METHOD_API_KEY'' \<mapsto> ''secret-key''],
       py_float = (\<lambda>s. None),
       http = (\<lambda>n req. Inr dated_429) \<rparr>"

text \<open>An environment with the three OAuth2 variables and no API key.\<close>

definition oauth_env :: "string \<Rightarrow> string option" where
  "oauth_env = [''METHOD_CLIENT_ID'' \<mapsto> ''id'', ''METHOD_CLIENT_SECRET'' \<mapsto> ''secret'',
                ''METHOD_REDIRECT_URI'' \<mapsto> ''https://example.com/cb'']"

text \<open>A table page of one record that carries a continuation link.\<close>

definition linked_page :: response where
  "linked_page =
     \<lparr> status_code = 200, headers = [],
       json_body = Inr (JObject [(''value'', JArray [JObject [(''Name'', JString ''Acme'')]]),
                                 (''count'', JInt 1),
                                 (''nextLink'', JString ''tables/Customer?skip=1'')]),
       error_text = [] \<rparr>"

definition linked_world :: world where
  "linked_world =
     \<lparr> environ = [''METHOD_API_KEY'' \<mapsto> ''secret-key''],
       py_float = (\<lambda>s. None),
       http = (\<lambda>n req. Inr linked_page) \<rparr>"

definition customer_query :: table_query_input where
  "customer_query =
     \<lparr> table = ''Customer'', filter_expr = None, select = None, top = Some 20, skip = Some 0,
       orderby = None, expand = None, aggregate = None, response_format = JSON \<rparr>"

definition fresh_state :: state where
  "fresh_state = \<lparr> client_slot = None, sent = [] \<rparr>"

definition no_markdown :: "json \<Rightarrow> string \<Rightarrow> exn + string" where
  "no_markdown data title = Inr []"

text \<open>An environment that sets the base URL, the timeout and the retry count.\<close>

definition tuned_world :: world where
  "tuned_world =
     \<lparr> environ = [''METHOD_API_KEY'' \<mapsto> ''secret-key'',
                  ''METHOD_API_BASE_URL'' \<mapsto> ''https://env.example/api/'',
                  ''METHOD_REQUEST_TIMEOUT'' \<mapsto> ''5'',
                  ''METHOD_MAX_RETRIES'' \<mapsto> ''5''],
       py_float = (\<lambda>s. if s = ''5'' then Some 5 else None),
       http = (\<lambda>n req. Inr ok_response) \<rparr>"

text \<open>Upload inputs: one character of base64, and 69905068 characters of it.\<close>

definition short_upload :: file_upload_input where
  "short_upload = \<lparr> filename = ''a.bin'', content = ''A'', link_table = ''Customer'',
                     link_record_id = ''1'', description = None \<rparr>"

definition big_content :: string where
  "big_content = replicate (4 * 17476267) (CHR ''A'')"

definition big_upload :: file_upload_input where
  "big_upload = \<lparr> filename = ''a.bin'', content = big_content, link_table = ''Customer'',
                   link_record_id = ''1'', description = None \<rparr>"

text \<open>Three bytes of well-formed base64, and a server that answers 413 to every call.\<close>

definition small_upload :: file_upload_input where
  "small_upload = \<lparr> filename = ''a.bin'', content = ''QUJD'', link_table = ''Customer'',
                     link_record_id = ''1'', description = None \<rparr>"

definition payload_too_large :: response where
  "payload_too_large =
     \<lparr> status_code = 413, headers = [],
       json_body = Inl (''JSONDecodeError'', ''Expecting value: line 1 column 1 (char 0)''),
       error_text = [] \<rparr>"

definition full_storage_world :: world where
  "full_storage_world =
     \<lparr> environ = [''METHOD_API_KEY'' \<mapsto> ''secret-key''],
       py_float = (\<lambda>s. None),
       http = (\<lambda>n req. Inr payload_too_large) \<rparr>"


section \<open>Lemmas\<close>

subsection \<open>Decoding what the encoder writes\<close>

lemma char_eq_of_nat: "(of_char c :: nat) = of_char d \<Longrightarrow> c = d"
  by simp

lemma hex_val_hex_char: "d < 16 \<Longrightarrow> hex_val (hex_char d) = Some d"
  by (auto simp: hex_val_def hex_char_def Let_def)

lemma hex4_escape:
  "n < 256 \<Longrightarrow> hex4 (CHR ''0'') (CHR ''0'') (hex_char (n div 16)) (hex_char (n mod 16)) = Some n"
proof -
  assume n: "n < 256"
  have z: "hex_val (CHR ''0'') = Some 0" by (simp add: hex_val_def)
  have a: "hex_val (hex_char (n div 16)) = Some (n div 16)"
    using n by (intro hex_val_hex_char) simp
  have b: "hex_val (hex_char (n mod 16)) = Some (n mod 16)"
    by (intro hex_val_hex_char) simp
  show ?thesis by (simp add: hex4_def z a b)
qed

lemma char_of_literals:
  "char_of (34::nat) = CHR 0x22" "char_of (92::nat) = CHR 0x5C" "char_of (8::nat) = CHR 0x08"
  "char_of (12::nat) = CHR 0x0C" "char_of (10::nat) = CHR 0x0A" "char_of (13::nat) = CHR 0x0D"
  "char_of (9::nat) = CHR 0x09"
  by (simp_all add: char_of_eq_iff take_bit_eq_mod)

lemma scan_string_escape_char:
  assumes "t \<noteq> []"
  shows "scan_string (json_escape_char c @ t) = cons_result c (scan_string t)"
proof -
  obtain e cs where t: "t = e # cs" using assms by (cases t) auto
  define n :: nat where "n = of_char c"
  have c: "c = char_of n" by (simp add: n_def)
  have n256: "n < 256" by (simp add: n_def)
  consider (q) "n = 34" | (b) "n = 92" | (bs) "n = 8" | (ff) "n = 12" | (nl) "n = 10"
    | (cr) "n = 13" | (tab) "n = 9"
    | (u) "n \<notin> {34, 92, 8, 12, 10, 13, 9}" "n < 32 \<or> 126 < n"
    | (plain) "n \<notin> {34, 92, 8, 12, 10, 13, 9}" "\<not> (n < 32 \<or> 126 < n)"
    by blast
  then show ?thesis
  proof cases
    case u
    have esc: "json_escape_char c =
       [CHR 0x5C, CHR ''u'', CHR ''0'', CHR ''0'', hex_char (n div 16), hex_char (n mod 16)]"
      using u by (simp add: json_escape_char_def n_def [symmetric] Let_def)
    show ?thesis
      unfolding esc using hex4_escape [OF n256] n256
      by (simp add: c)
  next
    case plain
    have esc: "json_escape_char c = [c]"
      using plain by (simp add: json_escape_char_def n_def [symmetric] Let_def)
    show ?thesis
      unfolding esc t using plain by (simp add: n_def [symmetric] Let_def)
  qed (simp_all add: json_escape_char_def unescape_def c Let_def char_of_literals)
qed

lemma scan_string_quote: "scan_string (CHR 0x22 # rest) = Some ([], rest)"
  by (cases rest) simp_all

lemma scan_string_encode:
  "scan_string (concat (map json_escape_char s) @ CHR 0x22 # rest) = Some (s, rest)"
  by (induction s) (simp_all add: scan_string_quote scan_string_escape_char cons_result_def)


lemma digit_char_props:
  "d < 10 \<Longrightarrow> is_digit (digit_char d) \<and> digit_val (digit_char d) = d
     \<and> ((of_char (digit_char d) :: nat) = 48 \<longleftrightarrow> d = 0)"
  by (auto simp: is_digit_def digit_val_def digit_char_def)

lemma str_nat_nonempty: "str_nat n \<noteq> []"
  by (subst str_nat.simps) simp

lemma str_nat_digits: "c \<in> set (str_nat n) \<Longrightarrow> is_digit c"
proof (induction n arbitrary: c rule: str_nat.induct)
  case (1 n)
  show ?case
  proof (cases "n < 10")
    case True
    then show ?thesis using "1.prems" digit_char_props [of n]
      by (subst (asm) str_nat.simps) simp
  next
    case False
    have "n mod 10 < 10" by simp
    then have "is_digit (digit_char (n mod 10))" using digit_char_props by blast
    then show ?thesis using False "1.prems" "1.IH"
      by (subst (asm) str_nat.simps) auto
  qed
qed

lemma digits_value_snoc: "digits_value (xs @ [d]) = 10 * digits_value xs + digit_val d"
  by (simp add: digits_value_def)

lemma digits_value_str_nat: "digits_value (str_nat n) = n"
proof (induction n rule: str_nat.induct)
  case (1 n)
  show ?case
  proof (cases "n < 10")
    case True
    then show ?thesis using digit_char_props [of n]
      by (subst str_nat.simps) (simp add: digits_value_def)
  next
    case False
    have "n mod 10 < 10" by simp
    then have "digit_val (digit_char (n mod 10)) = n mod 10" using digit_char_props by blast
    then show ?thesis using False "1.IH"
      by (subst str_nat.simps) (simp add: digits_value_snoc)
  qed
qed

lemma hd_str_nat_zero: "((of_char (hd (str_nat n)) :: nat) = 48) = (n = 0)"
proof (induction n rule: str_nat.induct)
  case (1 n)
  show ?case
  proof (cases "n < 10")
    case True
    then show ?thesis using digit_char_props [of n]
      by (subst str_nat.simps) simp
  next
    case False
    then have "n div 10 \<noteq> 0" by simp
    then show ?thesis using False "1.IH" str_nat_nonempty [of "n div 10"]
      by (subst str_nat.simps) simp
  qed
qed

lemma takeWhile_digits:
  assumes "value_end rest"
  shows "takeWhile is_digit (str_nat n @ rest) = str_nat n"
    and "dropWhile is_digit (str_nat n @ rest) = rest"
proof -
  have r: "takeWhile is_digit rest = []" "dropWhile is_digit rest = rest"
    using assms by (cases rest; simp add: value_end_def)+
  show "takeWhile is_digit (str_nat n @ rest) = str_nat n"
    using str_nat_digits by (simp add: takeWhile_append2 r)
  show "dropWhile is_digit (str_nat n @ rest) = rest"
    using str_nat_digits by (simp add: dropWhile_append2 r)
qed

lemma scan_digits_str_nat:
  assumes "value_end rest"
  shows "scan_digits neg (str_nat n @ rest) =
           Some (JInt (if neg then - int n else int n), rest)"
proof -
  obtain d r where dr: "str_nat n = d # r"
    using str_nat_nonempty [of n] by (cases "str_nat n") auto
  have dig: "is_digit d" using str_nat_digits [of d n] dr by simp
  have nf: "\<not> starts_fraction rest" using assms by (simp add: value_end_def)
  show ?thesis
  proof (cases "n = 0")
    case True
    have "str_nat n = [digit_char 0]" using True by (subst str_nat.simps) simp
    then show ?thesis using nf True digit_char_props [of 0]
      by (simp add: scan_digits_def digits_value_def)
  next
    case False
    have h: "(of_char d :: nat) \<noteq> 48" using hd_str_nat_zero [of n] dr False by simp
    have tw: "takeWhile is_digit (d # r @ rest) = d # r"
      and dw: "dropWhile is_digit (d # r @ rest) = rest"
      using takeWhile_digits [OF assms, of n] dr by simp_all
    have dv: "digits_value (d # r) = n" using digits_value_str_nat [of n] dr by simp
    show ?thesis
      unfolding dr using dig h nf
      by (simp add: scan_digits_def Let_def tw dw dv del: takeWhile.simps dropWhile.simps)
  qed
qed

lemma scan_number_str_int:
  assumes "value_end rest"
  shows "scan_number (str_int i @ rest) = Some (JInt i, rest)"
proof (cases "i < 0")
  case True
  then show ?thesis
    using scan_digits_str_nat [OF assms, of True "nat (- i)"]
    by (simp add: scan_number_def str_int_def)
next
  case False
  obtain d r where dr: "str_nat (nat i) = d # r"
    using str_nat_nonempty [of "nat i"] by (cases "str_nat (nat i)") auto
  have "is_digit d" using str_nat_digits [of d "nat i"] dr by simp
  then have "(of_char d :: nat) \<noteq> 45" by (auto simp: is_digit_def)
  then show ?thesis
    using False scan_digits_str_nat [OF assms, of False "nat i"] dr
    by (simp add: scan_number_def str_int_def)
qed


lemma skip_ws_value_start: "value_start s \<Longrightarrow> skip_ws s = s"
  by (cases s) (auto simp: value_start_def skip_ws_def is_json_ws_def Let_def)

lemma skip_ws_newline_indent: "value_start s \<Longrightarrow> skip_ws (newline_indent k @ s) = s"
proof -
  assume vs: "value_start s"
  have "\<And>x. x \<in> set (newline_indent k) \<Longrightarrow> is_json_ws x"
    by (auto simp: newline_indent_def is_json_ws_def)
  then have "skip_ws (newline_indent k @ s) = skip_ws s"
    unfolding skip_ws_def by (rule dropWhile_append2)
  then show ?thesis using skip_ws_value_start [OF vs] by simp
qed

lemma skip_ws_close:
  "(of_char c :: nat) = 93 \<or> (of_char c :: nat) = 125 \<Longrightarrow>
     skip_ws (newline_indent k @ c # rest) = c # rest"
proof -
  assume c: "(of_char c :: nat) = 93 \<or> (of_char c :: nat) = 125"
  have "\<And>x. x \<in> set (newline_indent k) \<Longrightarrow> is_json_ws x"
    by (auto simp: newline_indent_def is_json_ws_def)
  then have "skip_ws (newline_indent k @ c # rest) = skip_ws (c # rest)"
    unfolding skip_ws_def by (rule dropWhile_append2)
  then show ?thesis using c by (auto simp: skip_ws_def is_json_ws_def)
qed

lemma value_end_newline_indent: "value_end (newline_indent k @ s)"
  by (simp add: value_end_def newline_indent_def starts_fraction_def is_digit_def)

lemma value_end_comma: "value_end (CHR '','' # s)"
  by (simp add: value_end_def starts_fraction_def is_digit_def)

lemma value_start_str_int: "value_start (str_int i @ rest)"
proof -
  obtain d r where dr: "str_nat (nat \<bar>i\<bar>) = d # r"
    using str_nat_nonempty [of "nat \<bar>i\<bar>"] by (cases "str_nat (nat \<bar>i\<bar>)") auto
  have "is_digit d" using str_nat_digits [of d "nat \<bar>i\<bar>"] dr by simp
  then have "value_start (d # r @ rest)" by (simp add: value_start_def is_digit_def)
  then show ?thesis
  proof (cases "i < 0")
    case True
    then show ?thesis by (simp add: str_int_def value_start_def)
  next
    case False
    then have "nat \<bar>i\<bar> = nat i" by simp
    with dr \<open>value_start (d # r @ rest)\<close> False show ?thesis by (simp add: str_int_def)
  qed
qed

lemma value_start_encode: "value_start (json_encode level v @ rest)"
proof (cases v)
  case (JInt i)
  then show ?thesis using value_start_str_int by simp
qed (simp_all add: value_start_def json_encode_str_def)

lemma value_start_encode_list: "xs \<noteq> [] \<Longrightarrow> value_start (json_encode_list level xs @ rest)"
  using value_start_encode [of level "hd xs"] by (cases xs) simp_all

lemma value_start_encode_items: "kvs \<noteq> [] \<Longrightarrow> value_start (json_encode_items level kvs @ rest)"
  by (cases kvs) (simp_all add: value_start_def json_encode_str_def)

lemma value_start_facts:
  assumes "value_start (c # r)"
  shows "(of_char c :: nat) \<noteq> 93" "(of_char c :: nat) \<noteq> 125" "(of_char c :: nat) \<noteq> 44"
  using assms by (auto simp: value_start_def Let_def)


lemma update_fresh: "k \<notin> fst ` set al \<Longrightarrow> AList.update k v al = al @ [(k, v)]"
  by (induction al) auto

lemma foldl_update_distinct:
  "distinct (map fst (acc @ ps)) \<Longrightarrow>
     foldl (\<lambda>d kv. AList.update (fst kv) (snd kv) d) acc ps = acc @ ps"
proof (induction ps arbitrary: acc)
  case Nil
  show ?case by simp
next
  case (Cons p ps)
  have fresh: "fst p \<notin> fst ` set acc" using Cons.prems by auto
  have "distinct (map fst ((acc @ [p]) @ ps))" using Cons.prems by simp
  from Cons.IH [OF this] show ?case
    by (simp add: update_fresh [OF fresh])
qed

lemma dict_of_pairs_distinct: "distinct (map fst ps) \<Longrightarrow> dict_of_pairs ps = ps"
  using foldl_update_distinct [of "[]" ps] by (simp add: dict_of_pairs_def)

lemma parse_value_null: "parse_value (Suc f) (''null'' @ rest) = Some (JNull, rest)"
  by simp

lemma parse_value_true: "parse_value (Suc f) (''true'' @ rest) = Some (JBool True, rest)"
  by simp

lemma parse_value_false: "parse_value (Suc f) (''false'' @ rest) = Some (JBool False, rest)"
  by simp

lemma parse_value_int:
  assumes "value_end rest"
  shows "parse_value (Suc f) (str_int i @ rest) = Some (JInt i, rest)"
proof -
  obtain c r where cr: "str_int i @ rest = c # r"
    using value_start_str_int [of i rest] by (cases "str_int i @ rest") (auto simp: value_start_def)
  have vs: "value_start (c # r)" using value_start_str_int [of i rest] cr by simp
  have c: "(of_char c :: nat) = 45 \<or> (48 \<le> (of_char c :: nat) \<and> (of_char c :: nat) \<le> 57)"
  proof (cases "i < 0")
    case True
    then have "c = CHR ''-''" using cr by (simp add: str_int_def)
    then show ?thesis by simp
  next
    case False
    then have "c \<in> set (str_nat (nat i))"
      using cr str_nat_nonempty [of "nat i"] by (cases "str_nat (nat i)") (auto simp: str_int_def)
    then show ?thesis using str_nat_digits by (auto simp: is_digit_def)
  qed
  then have ne: "c \<noteq> CHR ''n''" "c \<noteq> CHR ''t''" "c \<noteq> CHR ''f''" by auto
  have "parse_value (Suc f) (c # r) = scan_number (c # r)"
    using c ne by auto
  then show ?thesis using scan_number_str_int [OF assms, of i] cr by simp
qed

lemma parse_value_str: "parse_value (Suc f) (json_encode_str s @ rest) = Some (JString s, rest)"
  by (simp add: json_encode_str_def scan_string_encode)

lemma parse_value_array_empty: "parse_value (Suc f) (''[]'' @ rest) = Some (JArray [], rest)"
  by (simp add: skip_ws_def is_json_ws_def)

lemma parse_value_object_empty: "parse_value (Suc f) (''{}'' @ rest) = Some (JObject [], rest)"
  by (simp add: skip_ws_def is_json_ws_def)

lemma parse_value_array:
  assumes "value_start body"
  shows "parse_value (Suc f) (CHR ''['' # newline_indent k @ body) =
           (case parse_elements f body of
              None \<Rightarrow> None
            | Some xr \<Rightarrow> Some (JArray (fst xr), snd xr))"
proof -
  obtain c r where cr: "body = c # r" using assms by (cases body) (auto simp: value_start_def)
  have "(of_char c :: nat) \<noteq> 93" using assms cr value_start_facts by blast
  then show ?thesis
    using skip_ws_newline_indent [OF assms, of k] cr by simp
qed

lemma parse_value_object:
  assumes "value_start body"
  shows "parse_value (Suc f) (CHR ''{'' # newline_indent k @ body) =
           (case parse_members f body of
              None \<Rightarrow> None
            | Some mr \<Rightarrow> Some (JObject (dict_of_pairs (fst mr)), snd mr))"
proof -
  obtain c r where cr: "body = c # r" using assms by (cases body) (auto simp: value_start_def)
  have "(of_char c :: nat) \<noteq> 125" using assms cr value_start_facts by blast
  then show ?thesis
    using skip_ws_newline_indent [OF assms, of k] cr by simp
qed

lemma parse_elements_last:
  assumes "parse_value f s = Some (v, newline_indent k @ CHR '']'' # rest)"
  shows "parse_elements (Suc f) s = Some ([v], rest)"
  using assms skip_ws_close [of "CHR '']''" k rest] by simp

lemma parse_elements_more:
  assumes "parse_value f s = Some (v, CHR '','' # newline_indent k @ body)" "value_start body"
  shows "parse_elements (Suc f) s =
           (case parse_elements f body of
              None \<Rightarrow> None
            | Some xr \<Rightarrow> Some (v # fst xr, snd xr))"
  using assms skip_ws_newline_indent [OF assms(2), of k]
  by (simp add: skip_ws_def is_json_ws_def split: option.split)

lemma parse_members_key:
  "parse_members (Suc f) (json_encode_str key @ '': '' @ body) =
     (case parse_value f (skip_ws body) of
        None \<Rightarrow> None
      | Some vr \<Rightarrow>
          (case skip_ws (snd vr) of
             [] \<Rightarrow> None
           | c' # r2 \<Rightarrow>
               if (of_char c' :: nat) = 125 then Some ([(key, fst vr)], r2)
               else if (of_char c' :: nat) = 44 then
                 (case parse_members f (skip_ws r2) of
                    None \<Rightarrow> None
                  | Some mr \<Rightarrow> Some ((key, fst vr) # fst mr, snd mr))
               else None))"
proof -
  have sc: "scan_string (concat (map json_escape_char key) @ CHR 0x22 # CHR '':'' # CHR '' '' # body) =
              Some (key, CHR '':'' # CHR '' '' # body)"
    by (rule scan_string_encode)
  have sk: "skip_ws (CHR '':'' # CHR '' '' # body) = CHR '':'' # CHR '' '' # body"
    by (simp add: skip_ws_def is_json_ws_def)
  have sk2: "skip_ws (CHR '' '' # body) = skip_ws body"
    by (simp add: skip_ws_def is_json_ws_def)
  have shape: "json_encode_str key @ '': '' @ body =
                 CHR 0x22 # (concat (map json_escape_char key) @ CHR 0x22 # CHR '':'' # CHR '' '' # body)"
    by (simp add: json_encode_str_def)
  show ?thesis
    unfolding shape parse_members.simps
    by (simp add: sc sk sk2 split: option.split list.split)
qed


lemma length_encode_pos: "0 < length (json_encode level v)"
  using value_start_encode [of level v "[]"] by (cases "json_encode level v") (auto simp: value_start_def)

lemma length_newline_indent_pos: "0 < length (newline_indent k)"
  by (simp add: newline_indent_def)

lemma parse_encode:
  "\<forall>f rest. length (json_encode level v) \<le> f \<longrightarrow> wf_json v \<longrightarrow> value_end rest \<longrightarrow>
       parse_value f (json_encode level v @ rest) = Some (v, rest)"
  "\<forall>f k rest. xs \<noteq> [] \<longrightarrow> length (json_encode_list level xs) < f \<longrightarrow> wf_json_list xs \<longrightarrow>
       parse_elements f (json_encode_list level xs @ newline_indent k @ CHR '']'' # rest)
         = Some (xs, rest)"
  "\<forall>f k rest. kvs \<noteq> [] \<longrightarrow> length (json_encode_items level kvs) < f \<longrightarrow> wf_json_items kvs \<longrightarrow>
       parse_members f (json_encode_items level kvs @ newline_indent k @ CHR ''}'' # rest)
         = Some (kvs, rest)"
proof (induction level v and level xs and level kvs
       rule: json_encode_json_encode_list_json_encode_items.induct)
  case (1 level)
  show ?case
  proof (intro allI impI)
    fix f rest assume "length (json_encode level JNull) \<le> f"
    then obtain f0 where "f = Suc f0" by (cases f) auto
    then show "parse_value f (json_encode level JNull @ rest) = Some (JNull, rest)"
      using parse_value_null by simp
  qed
next
  case (2 level b)
  show ?case
  proof (intro allI impI)
    fix f rest assume "length (json_encode level (JBool b)) \<le> f"
    then obtain f0 where "f = Suc f0" by (cases f) (auto split: if_splits)
    then show "parse_value f (json_encode level (JBool b) @ rest) = Some (JBool b, rest)"
      using parse_value_true [of f0 rest] parse_value_false [of f0 rest] by (cases b) simp_all
  qed
next
  case (3 level i)
  show ?case
  proof (intro allI impI)
    fix f rest assume len: "length (json_encode level (JInt i)) \<le> f" and ve: "value_end rest"
    obtain f0 where "f = Suc f0"
      using len length_encode_pos [of level "JInt i"] by (cases f) auto
    then show "parse_value f (json_encode level (JInt i) @ rest) = Some (JInt i, rest)"
      using parse_value_int [OF ve, of f0 i] by simp
  qed
next
  case (4 level s)
  show ?case
  proof (intro allI impI)
    fix f rest assume len: "length (json_encode level (JString s)) \<le> f"
    obtain f0 where "f = Suc f0"
      using len length_encode_pos [of level "JString s"] by (cases f) auto
    then show "parse_value f (json_encode level (JString s) @ rest) = Some (JString s, rest)"
      using parse_value_str [of f0 s rest] by simp
  qed
next
  case (5 level xs)
  show ?case
  proof (intro allI impI)
    fix f rest
    assume len: "length (json_encode level (JArray xs)) \<le> f" and wf: "wf_json (JArray xs)"
    obtain f0 where f: "f = Suc f0"
      using len length_encode_pos [of level "JArray xs"] by (cases f) auto
    show "parse_value f (json_encode level (JArray xs) @ rest) = Some (JArray xs, rest)"
    proof (cases "xs = []")
      case True
      then show ?thesis using parse_value_array_empty [of f0 rest] f by simp
    next
      case False
      define body where
        "body = json_encode_list (Suc level) xs @ newline_indent level @ CHR '']'' # rest"
      have vs: "value_start body"
        unfolding body_def using False by (rule value_start_encode_list)
      have shape: "json_encode level (JArray xs) @ rest =
                     CHR ''['' # newline_indent (Suc level) @ body"
        using False by (simp add: body_def)
      have "length (json_encode_list (Suc level) xs) < f0"
        using len f False length_newline_indent_pos [of level]
          length_newline_indent_pos [of "Suc level"] by simp
      then have "parse_elements f0 body = Some (xs, rest)"
        using "5.IH" [OF False] False wf unfolding body_def by simp
      then show ?thesis
        unfolding shape f by (simp add: parse_value_array [OF vs] del: parse_value.simps)
    qed
  qed
next
  case (6 level kvs)
  show ?case
  proof (intro allI impI)
    fix f rest
    assume len: "length (json_encode level (JObject kvs)) \<le> f" and wf: "wf_json (JObject kvs)"
    obtain f0 where f: "f = Suc f0"
      using len length_encode_pos [of level "JObject kvs"] by (cases f) auto
    show "parse_value f (json_encode level (JObject kvs) @ rest) = Some (JObject kvs, rest)"
    proof (cases "kvs = []")
      case True
      then show ?thesis using parse_value_object_empty [of f0 rest] f by simp
    next
      case False
      define body where
        "body = json_encode_items (Suc level) kvs @ newline_indent level @ CHR ''}'' # rest"
      have vs: "value_start body"
        unfolding body_def using False by (rule value_start_encode_items)
      have shape: "json_encode level (JObject kvs) @ rest =
                     CHR ''{'' # newline_indent (Suc level) @ body"
        using False by (simp add: body_def)
      have "length (json_encode_items (Suc level) kvs) < f0"
        using len f False length_newline_indent_pos [of level]
          length_newline_indent_pos [of "Suc level"] by simp
      then have "parse_members f0 body = Some (kvs, rest)"
        using "6.IH" [OF False] False wf unfolding body_def by simp
      moreover have "dict_of_pairs kvs = kvs"
        using wf by (simp add: dict_of_pairs_distinct)
      ultimately show ?thesis
        unfolding shape f by (simp add: parse_value_object [OF vs] del: parse_value.simps)
    qed
  qed
next
  case (7 level)
  show ?case by simp
next
  case (8 level x xs)
  show ?case
  proof (intro allI impI)
    fix f k rest
    assume len: "length (json_encode_list level (x # xs)) < f" and wf: "wf_json_list (x # xs)"
    obtain f0 where f: "f = Suc f0" using len by (cases f) auto
    show "parse_elements f (json_encode_list level (x # xs) @ newline_indent k @ CHR '']'' # rest)
            = Some (x # xs, rest)"
    proof (cases "xs = []")
      case True
      have "length (json_encode level x) \<le> f0" using len f True by simp
      then have "parse_value f0 (json_encode level x @ newline_indent k @ CHR '']'' # rest)
                   = Some (x, newline_indent k @ CHR '']'' # rest)"
        using "8.IH"(1) wf value_end_newline_indent by simp
      from parse_elements_last [OF this] show ?thesis using True f by simp
    next
      case False
      define body where
        "body = json_encode_list level xs @ newline_indent k @ CHR '']'' # rest"
      have vs: "value_start body"
        unfolding body_def using False by (rule value_start_encode_list)
      have shape: "json_encode_list level (x # xs) @ newline_indent k @ CHR '']'' # rest =
                     json_encode level x @ CHR '','' # newline_indent level @ body"
        using False by (simp add: body_def)
      have "length (json_encode level x) \<le> f0" using len f by simp
      then have pv: "parse_value f0 (json_encode level x @ CHR '','' # newline_indent level @ body)
                   = Some (x, CHR '','' # newline_indent level @ body)"
        using "8.IH"(1) wf value_end_comma by simp
      have "length (json_encode_list level xs) < f0"
        using len f False by simp
      then have "parse_elements f0 body = Some (xs, rest)"
        using "8.IH"(2) [OF False] False wf unfolding body_def by simp
      then show ?thesis
        unfolding shape f by (simp add: parse_elements_more [OF pv vs] del: parse_elements.simps)
    qed
  qed
next
  case (9 level)
  show ?case by simp
next
  case (10 level kv kvs)
  show ?case
  proof (intro allI impI)
    fix f k rest
    assume len: "length (json_encode_items level (kv # kvs)) < f"
      and wf: "wf_json_items (kv # kvs)"
    obtain f0 where f: "f = Suc f0" using len by (cases f) auto
    obtain key v where kv: "kv = (key, v)" by (cases kv)
    show "parse_members f (json_encode_items level (kv # kvs) @ newline_indent k @ CHR ''}'' # rest)
            = Some (kv # kvs, rest)"
    proof (cases "kvs = []")
      case True
      define body where "body = json_encode level v @ newline_indent k @ CHR ''}'' # rest"
      have vs: "value_start body" unfolding body_def by (rule value_start_encode)
      have shape: "json_encode_items level (kv # kvs) @ newline_indent k @ CHR ''}'' # rest =
                     json_encode_str key @ '': '' @ body"
        using True kv by (simp add: body_def)
      have "length (json_encode level v) \<le> f0" using len f True kv by simp
      then have "parse_value f0 body = Some (v, newline_indent k @ CHR ''}'' # rest)"
        using "10.IH"(1) wf kv value_end_newline_indent unfolding body_def by simp
      then show ?thesis
        unfolding shape f parse_members_key
        using skip_ws_value_start [OF vs] skip_ws_close [of "CHR ''}''" k rest] True kv
        by simp
    next
      case False
      define more where
        "more = json_encode_items level kvs @ newline_indent k @ CHR ''}'' # rest"
      define body where
        "body = json_encode level v @ CHR '','' # newline_indent level @ more"
      have vs: "value_start body" unfolding body_def by (rule value_start_encode)
      have vm: "value_start more"
        unfolding more_def using False by (rule value_start_encode_items)
      have shape: "json_encode_items level (kv # kvs) @ newline_indent k @ CHR ''}'' # rest =
                     json_encode_str key @ '': '' @ body"
        using False kv by (simp add: body_def more_def)
      have "length (json_encode level v) \<le> f0" using len f kv by simp
      then have pv: "parse_value f0 body = Some (v, CHR '','' # newline_indent level @ more)"
        using "10.IH"(1) wf kv value_end_comma unfolding body_def by simp
      have "length (json_encode_items level kvs) < f0"
        using len f False kv by simp
      then have pm: "parse_members f0 more = Some (kvs, rest)"
        using "10.IH"(2) [OF False] False wf unfolding more_def by simp
      have sk: "skip_ws (CHR '','' # newline_indent level @ more) =
                  CHR '','' # newline_indent level @ more"
        by (simp add: skip_ws_def is_json_ws_def)
      show ?thesis
        unfolding shape f parse_members_key
        using skip_ws_value_start [OF vs] pv sk skip_ws_newline_indent [OF vm, of level] pm kv
        by simp
    qed
  qed
qed

lemma json_loads_dumps: "wf_json v \<Longrightarrow> json_loads (json_dumps v) = Some v"
proof -
  assume wf: "wf_json v"
  have vs: "value_start (json_encode 0 v)"
    using value_start_encode [of 0 v "[]"] by simp
  have ve: "value_end []" by (simp add: value_end_def starts_fraction_def)
  have "length (json_encode 0 v) \<le> 2 * length (json_encode 0 v) + 2" by simp
  then have "parse_value (2 * length (json_encode 0 v) + 2) (json_encode 0 v @ []) = Some (v, [])"
    using parse_encode(1) [of 0 v] wf ve by blast
  then show ?thesis
    using skip_ws_value_start [OF vs] by (simp add: json_loads_def json_dumps_def skip_ws_def)
qed

subsection \<open>The retry loop, the decoder of uploads, the handlers\<close>

lemma wrap_exception_not_retried:
  "wrap_exception r = Inl e \<Longrightarrow> \<not> retry_if_exception_type e"
  by (auto simp: wrap_exception_def retry_if_exception_type_def split: sum.splits exn.splits)

lemma request_attempt_not_retried:
  "fst (request_attempt W self reqs m ep q b) = Inl e \<Longrightarrow> \<not> retry_if_exception_type e"
  by (auto simp: request_attempt_def Let_def split: sum.splits dest: wrap_exception_not_retried)

lemma retrying_single_attempt:
  "retrying W self n reqs m ep q b = request_attempt W self reqs m ep q b"
  by (subst retrying.simps) (auto simp: Let_def split: sum.splits dest: request_attempt_not_retried)

lemma request_at_most_one_call:
  "length (snd (request W self reqs m ep q b)) \<le> Suc (length reqs)"
  by (simp add: request_def retrying_single_attempt request_attempt_def Let_def split: sum.splits)

lemma a2b_base64_zeros:
  "a2b_base64 0 0 0 out (replicate (4 * n) (CHR ''A'')) = Inr (out @ replicate (3 * n) 0)"
proof (induction n arbitrary: out)
  case 0
  show ?case by simp
next
  case (Suc n)
  have r4: "replicate (4 * Suc n) (CHR ''A'') =
              CHR ''A'' # CHR ''A'' # CHR ''A'' # CHR ''A'' # replicate (4 * n) (CHR ''A'')"
  proof -
    have "4 * Suc n = Suc (Suc (Suc (Suc (4 * n))))" by simp
    then show ?thesis by (simp only: replicate.simps)
  qed
  have r3: "replicate (3 * Suc n) (0::nat) = 0 # 0 # 0 # replicate (3 * n) 0"
  proof -
    have "3 * Suc n = Suc (Suc (Suc (3 * n)))" by simp
    then show ?thesis by (simp only: replicate.simps)
  qed
  have v: "b64_value (CHR ''A'') = Some 0"
    by (simp add: b64_value_def)
  show ?case
    unfolding r4 r3 by (simp add: v Suc.IH)
qed

lemma b64decode_big_content: "b64decode big_content = Inr (replicate (3 * 17476267) 0)"
proof -
  have "\<not> list_ex (\<lambda>c. (of_char c :: nat) \<ge> 128) big_content"
    by (simp add: big_content_def list_ex_iff)
  then show ?thesis
    using a2b_base64_zeros [of "[]" 17476267] by (simp add: b64decode_def big_content_def)
qed


lemma hd_handle: "hd (handle_api_error e) = CHR ''E''"
  by (cases e) (auto simp: handle_api_error_def Let_def split: api_error_class.splits)

lemma response_envelope_json:
  "response_envelope data success message =
     (let response = [(''success'', JBool success)];
          response = (if truthy_str message
                      then AList.update ''message'' (JString (the message)) response
                      else response)
      in case data of
           JObject kvs \<Rightarrow>
             (case map_of kvs ''error'' of
                Some err \<Rightarrow> AList.update ''error'' err response
              | None \<Rightarrow> AList.update ''data'' data response)
         | _ \<Rightarrow> AList.update ''data'' data response)"
  by (simp add: response_envelope_def response_envelope_on_def json_python_def truthy_str_def
        Let_def split: option.split json.split)

lemma format_json_response_json:
  "format_json_response data success message =
     json_dumps (JObject (response_envelope data success message))"
  by (simp add: format_json_response_def format_json_response_on_def response_envelope_def
        json_python_def)

lemma hd_envelope: "hd (error_envelope m) = CHR ''{''"
  by (simp add: error_envelope_def format_json_response_json json_dumps_def response_envelope_json
        truthy_str_def)


lemma handle_api_error_prefix: "\<exists>r. handle_api_error e = ''Error: '' @ r"
  by (cases e) (auto simp: handle_api_error_def Let_def split: api_error_class.splits)



lemma get_client_flaky:
  "get_client flaky_world fresh_state = (Inr demo_client, fresh_state\<lparr>client_slot := Some demo_client\<rparr>)"
  by code_simp

text \<open>The upload handler on content that decodes to more than the limit.\<close>

lemma upload_size_limit:
  "fst (get_client W st) = Inr c \<Longrightarrow> b64decode (content p) = Inr bs \<Longrightarrow> max_size < length bs \<Longrightarrow>
     fst (method_files_upload W st p) =
       error_envelope (''File size ('' @ str_nat (length bs) @ '' bytes) exceeds 50MB limit ('' @
                       str_nat max_size @ '' bytes)'')"
  by (cases "get_client W st")
     (simp add: method_files_upload_def tool_boundary_def method_files_upload_body_def)

lemma envelope_not_translation: "error_envelope m \<noteq> handle_api_error e"
proof
  assume "error_envelope m = handle_api_error e"
  then have "hd (error_envelope m) = hd (handle_api_error e)" by simp
  then show False by (simp add: hd_handle hd_envelope)
qed

lemma wf_json_items_all: "wf_json_items d = (\<forall>kv \<in> set d. wf_json (snd kv))"
  by (induction d) auto

text \<open>The order of the status rules, on the responses where \<open>int()\<close> does not fail.\<close>

lemma status_handling_order:
  "status_code r = 429 \<Longrightarrow> \<not> truthy_str (headers_get (headers r) ''Retry-After'') \<Longrightarrow>
     status_handling r = Inl (MethodAPIError RateLimitError ''Rate limit exceeded'' (Some 429) None)"
  "status_code r = 429 \<Longrightarrow> headers_get (headers r) ''Retry-After'' = Some v \<Longrightarrow> v \<noteq> [] \<Longrightarrow>
     py_int v = Inr n \<Longrightarrow>
     status_handling r = Inl (MethodAPIError RateLimitError ''Rate limit exceeded'' (Some 429) (Some n))"
  "status_code r \<noteq> 429 \<Longrightarrow> \<not> is_success (status_code r) \<Longrightarrow>
     status_handling r = Inl (HTTPStatusError r (error_text r))"
  "status_code r = 204 \<Longrightarrow> status_handling r = Inr no_content_marker"
  "is_success (status_code r) \<Longrightarrow> status_code r \<noteq> 204 \<Longrightarrow> json_body r = Inr body \<Longrightarrow>
     status_handling r = Inr body"
  by (auto simp: status_handling_def truthy_str_def is_success_def Let_def)

section \<open>The claims\<close>

text \<open>
  C1. The claim: \<open>request\<close> retries connection failures and timeouts, up to three
  attempts, so that a call whose transport fails to connect twice and then succeeds
  returns the successful result. The code: the handler inside \<open>request\<close> turns the
  \<open>ConnectError\<close> into a \<open>MethodAPIError\<close> before the retry decorator sees it, and the
  decorator does not retry that class. On a transport that fails twice and then
  succeeds, \<open>request\<close> raises after its first attempt, having sent one HTTP request.
\<close>

theorem request_connect_error_raises_after_one_attempt:
  "request flaky_world demo_client [] ''GET'' ''/me'' None None =
     (Inl (MethodAPIError BaseError
             (handle_api_error (ConnectError ''All connection attempts failed'')) None None),
      [me_request])"
  by code_simp

text \<open>
  C2. With a known total, \<open>has_more\<close> is \<open>total > offset + count\<close>; with an unknown
  total it is \<open>count = limit\<close>; in both cases \<open>next_offset\<close> is \<open>offset + count\<close>
  exactly when \<open>has_more\<close> is true and absent otherwise.
\<close>

theorem format_pagination_info_has_more_next_offset:
  "has_more (format_pagination_info (Some t) cnt off lmt) = (t > off + cnt)
   \<and> has_more (format_pagination_info None cnt off lmt) = (cnt = lmt)
   \<and> next_offset (format_pagination_info tot cnt off lmt) =
       (if has_more (format_pagination_info tot cnt off lmt) then Some (off + cnt) else None)"
  by (simp add: format_pagination_info_def Let_def)

text \<open>
  C3. The claim: on every failure path of every tool handler, the string returned is the
  message the error translator produces. The code: the upload handler returns, on its
  three own checks (a decoded size above 50 MB, base64 that does not decode, status 413),
  the JSON failure envelope built by \<open>format_json_response\<close>, where its docstring
  gives \<open>"Error: File size exceeds 50MB limit..." with suggestions\<close> as the error result
  and every other failure of the handler goes through the translator. With credentials
  set, content that decodes to 52428801 bytes, content of one character, and a
  well-formed upload answered with status 413 each return such an envelope; an envelope
  starts with a brace, so it is the translator's message for no exception.
\<close>

theorem upload_failure_not_translated:
  "fst (method_files_upload flaky_world fresh_state big_upload) =
     error_envelope ''File size (52428801 bytes) exceeds 50MB limit (52428800 bytes)''
   \<and> fst (method_files_upload flaky_world fresh_state short_upload) =
     error_envelope (''Invalid base64 content: Invalid base64-encoded string: '' @
                     ''number of data characters (1) cannot be 1 more than a multiple of 4'')
   \<and> fst (method_files_upload full_storage_world fresh_state small_upload) =
     error_envelope ''File size exceeds 50MB limit or storage quota (10GB) exceeded''
   \<and> (\<forall>m. hd (error_envelope m) = CHR ''{'')
   \<and> (\<forall>m e. error_envelope m \<noteq> handle_api_error e)"
proof -
  have big: "b64decode (content big_upload) = Inr (replicate 52428801 0)"
    using b64decode_big_content by (simp add: big_upload_def)
  have len: "max_size < length (replicate 52428801 (0::nat))"
    by (simp add: max_size_def)
  have gc: "fst (get_client flaky_world fresh_state) = Inr demo_client"
    by (simp add: get_client_flaky)
  have n1: "str_nat (length (replicate 52428801 (0::nat))) = ''52428801''"
    by (simp add: str_nat.simps digit_char_def char_of_eq_iff take_bit_eq_mod)
  have n2: "str_nat max_size = ''52428800''"
    by (simp add: max_size_def str_nat.simps digit_char_def char_of_eq_iff take_bit_eq_mod)
  have "fst (method_files_upload flaky_world fresh_state big_upload) =
       error_envelope (''File size ('' @ str_nat (length (replicate 52428801 (0::nat))) @
                       '' bytes) exceeds 50MB limit ('' @ str_nat max_size @ '' bytes)'')"
    using gc big len by (rule upload_size_limit)
  then have r1: "fst (method_files_upload flaky_world fresh_state big_upload) =
       error_envelope ''File size (52428801 bytes) exceeds 50MB limit (52428800 bytes)''"
    unfolding n1 n2 by simp
  have r2: "fst (method_files_upload flaky_world fresh_state short_upload) =
     error_envelope (''Invalid base64 content: Invalid base64-encoded string: '' @
                     ''number of data characters (1) cannot be 1 more than a multiple of 4'')"
    by code_simp
  have gc3: "get_client full_storage_world fresh_state =
      (Inr demo_client, fresh_state\<lparr>client_slot := Some demo_client\<rparr>)"
    by code_simp
  have dec: "b64decode (content small_upload) = Inr [65, 66, 67]"
    by code_simp
  have form: "upload_form_data small_upload =
      Inr [(''table'', JString ''Customer''), (''recordId'', JInt 1)]"
    by code_simp
  have hs: "manager_get_headers (auth_manager demo_client) =
      Inr [(''Authorization'', ''APIKey secret-key''), (''Content-Type'', ''application/json'')]"
    by code_simp
  have resp: "\<And>n req. http full_storage_world n req = Inr payload_too_large"
    by (simp add: full_storage_world_def)
  have st: "status_code payload_too_large = 413"
    by (simp add: payload_too_large_def)
  have r3: "fst (method_files_upload full_storage_world fresh_state small_upload) =
     error_envelope ''File size exceeds 50MB limit or storage quota (10GB) exceeded''"
    by (simp add: method_files_upload_def tool_boundary_def method_files_upload_body_def
          gc3 dec form hs resp upload_response_def st max_size_def Let_def)
  have r4: "\<forall>m. hd (error_envelope m) = CHR ''{''"
    by (simp add: hd_envelope)
  have r5: "\<forall>m e. error_envelope m \<noteq> handle_api_error e"
    by (simp add: envelope_not_translation)
  show ?thesis
    by (intro conjI) (rule r1, rule r2, rule r3, rule r4, rule r5)
qed

text \<open>
  C4. The translator returns, for every exception, a non-empty string that contains the
  word \<open>Error\<close>; a response body that does not decode, or decodes to an unexpected
  shape, falls back to the text of the exception.
\<close>

theorem handle_api_error_total:
  "handle_api_error e \<noteq> [] \<and> sublist ''Error'' (handle_api_error e)"
proof -
  obtain r where r: "handle_api_error e = ''Error: '' @ r"
    using handle_api_error_prefix by blast
  have "handle_api_error e = [] @ ''Error'' @ ('': '' @ r)" using r by simp
  then have "sublist ''Error'' (handle_api_error e)" unfolding sublist_def by blast
  with r show ?thesis by simp
qed

text \<open>
  C5. The claim: a response with status 429 raises \<open>RateLimitError\<close>, with
  \<open>retry_after\<close> parsed from the \<open>Retry-After\<close> header when it is present. The code:
  the header is passed to \<open>int()\<close>; when it holds an HTTP date, \<open>int()\<close> raises
  \<open>ValueError\<close>, and \<open>request\<close> raises a plain \<open>MethodAPIError\<close> whose message is the
  translation of that \<open>ValueError\<close>.
\<close>

theorem rate_limit_with_http_date_raises_value_error:
  "status_handling dated_429 = Inl (int_value_error ''Wed, 21 Oct 2015 07:28:00 GMT'')
   \<and> fst (request rate_limited_world demo_client [] ''GET'' ''me'' None None) =
       Inl (MethodAPIError BaseError
              (handle_api_error (int_value_error ''Wed, 21 Oct 2015 07:28:00 GMT'')) None None)"
  by code_simp

text \<open>
  C6. The claim: with client id, client secret and redirect URI set and no API key, the
  selected strategy is OAuth2 client-credentials. The code tests the three variables
  together first and selects the authorization-code strategy.
\<close>

theorem oauth_variables_select_authorization_code:
  "AuthManager_init oauth_env =
     Inr \<lparr> auth = Some (OAuth2AuthorizationCodeAuth ''id'' ''secret'' ''https://example.com/cb''
                          ''https://rest.method.me/oauth/authorize''
                          ''https://rest.method.me/oauth/token''),
            auth_method = ''oauth2_authorization_code'' \<rparr>"
  by code_simp

text \<open>
  C7. The claim: in every pagination record a tool returns, \<open>next_offset\<close> is set exactly
  when \<open>has_more\<close> is true. The code: the query handler overwrites \<open>has_more\<close> from the
  continuation link and leaves \<open>next_offset\<close> as computed from the counts. For a page of
  one record out of a limit of 20 that carries a link, the result has \<open>has_more\<close> true
  and \<open>next_offset\<close> null.
\<close>

theorem query_with_next_link_has_more_without_next_offset:
  "fst (method_tables_query no_markdown linked_world fresh_state customer_query) =
     json_dumps (JObject [(''success'', JBool True),
       (''data'', JObject [(''total'', JNull), (''count'', JInt 1), (''offset'', JInt 0),
          (''limit'', JInt 20), (''has_more'', JBool True), (''next_offset'', JNull),
          (''next_link'', JString ''tables/Customer?skip=1''),
          (''records'', JArray [JObject [(''Name'', JString ''Acme'')]])])])"
  by code_simp

text \<open>
  C8, as amended. Take any Python values and strings (distinct literals of the program
  text being distinct strings) and any JSON library, and call JSON-safe the values that
  \<open>json.loads\<close> gives back from what \<open>json.dumps\<close> wrote, where booleans and
  strings are such values and so is a dictionary of such values. For every JSON-safe
  payload that is not a dictionary with the key \<open>error\<close>, decoding the string
  \<open>format_json_response\<close> returns with \<open>success=True\<close> gives a dictionary whose
  \<open>success\<close> is true, whose \<open>data\<close> is the payload, and whose \<open>message\<close> is the
  message when one was given and is not empty (there is no \<open>message\<close> otherwise).
\<close>

theorem format_json_response_round_trip:
  fixes P :: "('v, 's) python" and json_safe :: "'v \<Rightarrow> bool"
  assumes literals: "inj (literal P)"
    and library: "\<And>v. json_safe v \<Longrightarrow> loads P (dumps P v) = Some v"
    and booleans: "\<And>b. json_safe (bool_value P b)"
    and strings: "\<And>s. json_safe (str_value P s)"
    and dictionaries: "\<And>d. distinct (map fst d) \<Longrightarrow> (\<forall>kv \<in> set d. json_safe (snd kv)) \<Longrightarrow>
                         json_safe (dict_value P d)"
    and payload: "json_safe data"
    and no_error_key: "error_item P data = None"
  shows "\<exists>env. loads P (format_json_response_on P data True message) = Some (dict_value P env)
           \<and> map_of env (literal P ''success'') = Some (bool_value P True)
           \<and> map_of env (literal P ''data'') = Some data
           \<and> map_of env (literal P ''message'') =
               (case message of
                  None \<Rightarrow> None
                | Some m \<Rightarrow> if str_truthy P m then Some (str_value P m) else None)"
proof -
  define env where "env = response_envelope_on P data True message"
  have keys: "literal P ''success'' \<noteq> literal P ''message''"
       "literal P ''success'' \<noteq> literal P ''data''"
       "literal P ''message'' \<noteq> literal P ''data''"
    using literals by (simp_all add: inj_eq)
  have shape: "env = (literal P ''success'', bool_value P True) #
                 (case message of
                    None \<Rightarrow> []
                  | Some m \<Rightarrow> if str_truthy P m then [(literal P ''message'', str_value P m)]
                              else []) @
                 [(literal P ''data'', data)]"
    using no_error_key keys
    by (simp add: env_def response_envelope_on_def Let_def split: option.split)
  have "distinct (map fst env)" and "\<forall>kv \<in> set env. json_safe (snd kv)"
    using keys booleans strings payload by (auto simp: shape split: option.split)
  then have "json_safe (dict_value P env)" by (rule dictionaries)
  then have "loads P (dumps P (dict_value P env)) = Some (dict_value P env)" by (rule library)
  then have "loads P (format_json_response_on P data True message) = Some (dict_value P env)"
    by (simp add: format_json_response_on_def env_def)
  moreover have "map_of env (literal P ''success'') = Some (bool_value P True)"
    and "map_of env (literal P ''data'') = Some data"
    and "map_of env (literal P ''message'') =
           (case message of
              None \<Rightarrow> None
            | Some m \<Rightarrow> if str_truthy P m then Some (str_value P m) else None)"
    using keys by (auto simp: shape split: option.split)
  ultimately show ?thesis by blast
qed

text \<open>
  Witness for C8: the values of this development with its encoder and decoder, a record
  with a nested list as the payload, and a message.
\<close>

theorem format_json_response_round_trip_witness:
  "\<exists>env. json_loads (format_json_response
                        (JObject [(''id'', JInt 7), (''tags'', JArray [JString ''a'', JNull])])
                        True (Some ''ok'')) = Some (JObject env)
         \<and> map_of env ''success'' = Some (JBool True)
         \<and> map_of env ''data'' =
             Some (JObject [(''id'', JInt 7), (''tags'', JArray [JString ''a'', JNull])])
         \<and> map_of env ''message'' = Some (JString ''ok'')"
proof -
  have a: "inj (literal json_python)" by (simp add: json_python_def)
  have b: "\<And>v. wf_json v \<Longrightarrow> loads json_python (dumps json_python v) = Some v"
    by (simp add: json_python_def json_loads_dumps)
  have c: "\<And>b. wf_json (bool_value json_python b)" by (simp add: json_python_def)
  have d: "\<And>s. wf_json (str_value json_python s)" by (simp add: json_python_def)
  have e: "\<And>d. distinct (map fst d) \<Longrightarrow> (\<forall>kv \<in> set d. wf_json (snd kv)) \<Longrightarrow>
              wf_json (dict_value json_python d)"
    by (simp add: json_python_def wf_json_items_all)
  have f: "wf_json (JObject [(''id'', JInt 7), (''tags'', JArray [JString ''a'', JNull])])"
    by simp
  have g: "error_item json_python
             (JObject [(''id'', JInt 7), (''tags'', JArray [JString ''a'', JNull])]) = None"
    by (simp add: json_python_def)
  show ?thesis
    using format_json_response_round_trip [of json_python wf_json, OF a b c d e f g, of "Some ''ok''"]
    by (simp add: format_json_response_def json_python_def)
qed

text \<open>
  Counterexample for C8 as stated: a payload that is a dictionary with the key \<open>error\<close>
  comes back without a \<open>data\<close> field, and an empty message comes back without a
  \<open>message\<close> field.
\<close>

theorem format_json_response_error_key_drops_data:
  "json_loads (format_json_response (JObject [(''error'', JString ''x'')]) True None) =
     Some (JObject [(''success'', JBool True), (''error'', JString ''x'')])
   \<and> json_loads (format_json_response (JInt 5) True (Some [])) =
     Some (JObject [(''success'', JBool True), (''data'', JInt 5)])"
  by code_simp


text \<open>
  C9. The claim: for the base URL, the timeout and the retry count, an explicit
  constructor argument wins over the environment variable. The code: the base URL is
  \<open>base_url or os.getenv(...)\<close>, so its argument wins, but the timeout and the retry
  count are \<open>os.getenv(NAME, argument)\<close>, so the environment wins. With all three
  variables set, the arguments 60 and 7 give a client with timeout 5 and retry count 5,
  while the explicit base URL is the one the client has.
\<close>

theorem environment_overrides_explicit_timeout_and_retries:
  "MethodAPIClient_init tuned_world (Some ''https://x.example/api'') None 60 7 =
     Inr \<lparr> base_url = ''https://x.example/api'', auth_manager = api_key_manager,
            timeout = 5, max_retries = 5 \<rparr>
   \<and> MethodAPIClient_init tuned_world None None 60 7 =
     Inr \<lparr> base_url = ''https://env.example/api'', auth_manager = api_key_manager,
            timeout = 5, max_retries = 5 \<rparr>"
  by code_simp




end
